theory Spec2Isabelle
  imports Main
begin

section \<open>Common data\<close>

text \<open>
  Python \<open>bytes\<close> values and the \<open>str\<close> values of URLs, identifiers and messages are
  modelled as \<open>string\<close> (a list of 8-bit characters); Python integers are \<open>int\<close>.
  Exceptions are values of the datatype \<open>error\<close>; a function that can raise
  returns \<open>error + 'a\<close> with \<open>Inl\<close> for the exception.
\<close>

type_synonym bytes = string

text \<open>
  \<open>ValueError\<close> carries its message; \<open>AttributeError\<close> the type of the object and the
  attribute that is missing; \<open>ValidationError\<close> the model class that refused its
  input.  The text \<open>str(e)\<close> of an exception is the language's and the libraries'
  own, and is a parameter wherever the code writes it down.
\<close>

datatype error =
    ValueError string
  | AttributeError string string
  | ZeroDivisionError
  | ValidationError string

text \<open>Decimal rendering of an integer inside an f-string.\<close>

fun str_nat :: "nat \<Rightarrow> string" where
  "str_nat n =
     (if n < 10 then [char_of (48 + n)]
      else str_nat (n div 10) @ [char_of (48 + n mod 10)])"

definition str_int :: "int \<Rightarrow> string" where
  "str_int i = (if i < 0 then CHR ''-'' # str_nat (nat (- i)) else str_nat (nat i))"

subsection \<open>The string and slice operations the code uses\<close>

text \<open>
  In byte strings, URLs, identifiers and messages a character is one 8-bit
  character.  \<open>is_space\<close> is the whitespace \<open>split()\<close> splits on there; \<open>lower\<close> lowers
  the letters of such a string and is used for hexadecimal digits only.
\<close>

definition is_space :: "char \<Rightarrow> bool" where
  "is_space c =
     (let n = (of_char c :: nat)
      in (9 \<le> n \<and> n \<le> 13) \<or> (28 \<le> n \<and> n \<le> 32) \<or> n = 133 \<or> n = 160)"

text \<open>
  \<open>s.split()\<close> for a given whitespace test: the maximal runs of non-whitespace, none
  of them empty.
\<close>

fun split_on :: "('a \<Rightarrow> bool) \<Rightarrow> 'a list \<Rightarrow> 'a list \<Rightarrow> 'a list list" where
  "split_on sp w [] = (if w = [] then [] else [w])"
| "split_on sp w (c # cs) =
     (if sp c then (if w = [] then split_on sp [] cs else w # split_on sp [] cs)
      else split_on sp (w @ [c]) cs)"

definition py_split :: "string \<Rightarrow> string list" where
  "py_split s = split_on is_space [] s"

definition lower_char :: "char \<Rightarrow> char" where
  "lower_char c =
     (let n = (of_char c :: nat)
      in if (65 \<le> n \<and> n \<le> 90) \<or> (192 \<le> n \<and> n \<le> 222 \<and> n \<noteq> 215)
         then char_of (n + 32) else c)"

definition lower :: "string \<Rightarrow> string" where
  "lower s = map lower_char s"

text \<open>\<open>s.find(sub)\<close>: the lowest index where \<open>sub\<close> starts in \<open>s\<close>, or \<open>-1\<close>.\<close>

fun find_str :: "'a list \<Rightarrow> 'a list \<Rightarrow> nat option" where
  "find_str [] sub = (if sub = [] then Some 0 else None)"
| "find_str (c # cs) sub =
     (if take (length sub) (c # cs) = sub then Some 0
      else map_option Suc (find_str cs sub))"

definition py_find :: "'a list \<Rightarrow> 'a list \<Rightarrow> int" where
  "py_find s sub = (case find_str s sub of None \<Rightarrow> - 1 | Some i \<Rightarrow> int i)"

text \<open>
  \<open>xs[i:j]\<close>: a negative bound counts from the end, and every bound is clipped to
  \<open>0 .. len(xs)\<close>.
\<close>

definition clip_index :: "int \<Rightarrow> nat \<Rightarrow> nat" where
  "clip_index i n = (if i < 0 then nat (max 0 (int n + i)) else min (nat i) n)"

definition py_slice :: "'a list \<Rightarrow> int \<Rightarrow> int \<Rightarrow> 'a list" where
  "py_slice xs i j =
     (let a = clip_index i (length xs); b = clip_index j (length xs)
      in take (b - a) (drop a xs))"


section \<open>Data model (src/storage/models.py)\<close>

datatype ContentType = HTML | RSS | PDF | TXT | TWITTER | REDDIT | YOUTUBE | LINKEDIN

datatype CrawlStatus = IDLE | RUNNING | COMPLETED | FAILED | PAUSED | BLOCKED

record CrawlConfig =
  frequency :: string
  max_hits :: int
  enabled :: bool
  follow_links :: bool
  max_depth :: int
  rate_limit_per_minute :: int

text \<open>
  A source as stored; its identifier is the key it is stored under.  Times are
  numbers (\<open>datetime.utcnow()\<close> is a parameter of every operation that reads it).
\<close>

record Source =
  name :: string
  url :: string
  project_id :: "string option"
  content_type :: ContentType
  config :: CrawlConfig
  status :: CrawlStatus
  last_crawl :: "nat option"
  last_error :: "string option"
  total_documents :: int
  updated_at :: nat

record Project =
  project_name :: string
  domain :: string
  target_keywords :: "string list"

record DocumentMetadata =
  md_title :: "string option"
  md_author :: "string option"
  md_publish_date :: "nat option"
  md_language :: "string option"
  md_word_count :: int
  md_keywords :: "string list"
  md_custom :: "(string \<times> string) list"

record Document =
  doc_url :: string
  source_id :: string
  doc_content_type :: ContentType
  doc_raw_content :: string
  doc_cleaned_text :: string
  metadata :: DocumentMetadata
  crawl_config_snapshot :: CrawlConfig
  crawled_at :: nat

record CrawlStats =
  stats_source_id :: string
  pages_crawled :: int
  pages_failed :: int
  bytes_downloaded :: int
  duration_seconds :: nat
  started_at :: nat
  completed_at :: "nat option"
  errors :: "string list"


section \<open>Store (src/storage/mongo.py)\<close>

text \<open>
  \<open>ObjectId(s)\<close> of the database driver accepts a string of 24 hexadecimal digits and
  raises \<open>InvalidId\<close> otherwise (\<open>None\<close> here); \<open>str\<close> of the identifier is the same
  digits in lower case.  Collections keyed by \<open>_id\<close> are maps from that string.
\<close>

definition is_hex :: "char \<Rightarrow> bool" where
  "is_hex c =
     (let n = (of_char c :: nat)
      in (48 \<le> n \<and> n \<le> 57) \<or> (65 \<le> n \<and> n \<le> 70) \<or> (97 \<le> n \<and> n \<le> 102))"

definition ObjectId :: "string \<Rightarrow> string option" where
  "ObjectId s = (if length s = 24 \<and> list_all is_hex s then Some (lower s) else None)"

record db =
  projects :: "string \<rightharpoonup> Project"
  sources :: "string \<rightharpoonup> Source"
  documents :: "(nat \<times> Document) list"
  crawl_stats :: "CrawlStats list"
  next_id :: nat

text \<open>
  The field constraints of \<open>CrawlConfig\<close> and \<open>Source\<close> (models.py), which the
  constructor of \<open>Source\<close> checks when \<open>get_source\<close> builds the model from the
  stored record: a record that breaks one raises \<open>ValidationError\<close>.
\<close>

definition valid_config :: "CrawlConfig \<Rightarrow> bool" where
  "valid_config c =
     (length (py_split (frequency c)) = 5
      \<and> 1 \<le> max_hits c \<and> max_hits c \<le> 10000
      \<and> 1 \<le> max_depth c \<and> max_depth c \<le> 5
      \<and> 1 \<le> rate_limit_per_minute c \<and> rate_limit_per_minute c \<le> 300)"

definition valid_source :: "Source \<Rightarrow> bool" where
  "valid_source s =
     (1 \<le> length (name s) \<and> length (name s) \<le> 200
      \<and> 0 \<le> total_documents s \<and> valid_config (config s))"

text \<open>
  \<open>get_source\<close>: \<open>None\<close> for a malformed id or when no source has it; otherwise the
  validated source with its \<open>id\<close> set to \<open>str(_id)\<close>.
\<close>

definition get_source :: "db \<Rightarrow> string \<Rightarrow> error + (string \<times> Source) option" where
  "get_source d sid =
     (case ObjectId sid of
        None \<Rightarrow> Inr None
      | Some obj_id \<Rightarrow>
          (case sources d obj_id of
             None \<Rightarrow> Inr None
           | Some doc \<Rightarrow>
               if valid_source doc then Inr (Some (obj_id, doc))
               else Inl (ValidationError ''Source'')))"

text \<open>The entries of an \<open>updates\<close> dictionary that the crawler writes.\<close>

datatype source_update =
    Set_status CrawlStatus
  | Set_last_crawl nat
  | Set_total_documents int
  | Set_last_error "string option"
  | Set_updated_at nat

fun apply_update :: "source_update \<Rightarrow> Source \<Rightarrow> Source" where
  "apply_update (Set_status v) s = s\<lparr>status := v\<rparr>"
| "apply_update (Set_last_crawl v) s = s\<lparr>last_crawl := Some v\<rparr>"
| "apply_update (Set_total_documents v) s = s\<lparr>total_documents := v\<rparr>"
| "apply_update (Set_last_error v) s = s\<lparr>last_error := v\<rparr>"
| "apply_update (Set_updated_at v) s = s\<lparr>updated_at := v\<rparr>"

text \<open>
  \<open>update_source\<close>: \<open>$set\<close> of the updates and of \<open>updated_at\<close> on the source with this
  \<open>_id\<close>; \<open>False\<close> for a malformed id or when no source matches.
\<close>

definition update_source ::
  "db \<Rightarrow> string \<Rightarrow> source_update list \<Rightarrow> nat \<Rightarrow> bool \<times> db" where
  "update_source d sid updates now =
     (case ObjectId sid of
        None \<Rightarrow> (False, d)
      | Some obj_id \<Rightarrow>
          (case sources d obj_id of
             None \<Rightarrow> (False, d)
           | Some doc \<Rightarrow>
               (True, d\<lparr>sources := (sources d)
                  (obj_id \<mapsto> fold apply_update (updates @ [Set_updated_at now]) doc)\<rparr>)))"

text \<open>
  \<open>delete_project\<close>: \<open>delete_many\<close> on the sources whose \<open>project_id\<close> is the given
  string, then \<open>delete_one\<close> on the project.
\<close>

definition delete_project :: "db \<Rightarrow> string \<Rightarrow> bool \<times> db" where
  "delete_project d pid =
     (case ObjectId pid of
        None \<Rightarrow> (False, d)
      | Some obj_id \<Rightarrow>
          (let d1 = d\<lparr>sources :=
                       (\<lambda>k. case sources d k of
                              None \<Rightarrow> None
                            | Some s \<Rightarrow> if project_id s = Some pid then None else Some s)\<rparr>
           in case projects d1 obj_id of
                None \<Rightarrow> (False, d1)
              | Some p \<Rightarrow> (True, d1\<lparr>projects := (projects d1)(obj_id := None)\<rparr>)))"

text \<open>
  \<open>delete_source\<close>: \<open>delete_many\<close> on the documents whose \<open>source_id\<close> is the given
  string, then \<open>delete_one\<close> on the source.
\<close>

definition delete_source :: "db \<Rightarrow> string \<Rightarrow> bool \<times> db" where
  "delete_source d sid =
     (case ObjectId sid of
        None \<Rightarrow> (False, d)
      | Some obj_id \<Rightarrow>
          (let d1 = d\<lparr>documents := filter (\<lambda>(i, doc). source_id doc \<noteq> sid) (documents d)\<rparr>
           in case sources d1 obj_id of
                None \<Rightarrow> (False, d1)
              | Some s \<Rightarrow> (True, d1\<lparr>sources := (sources d1)(obj_id := None)\<rparr>)))"

text \<open>
  \<open>create_document\<close>: the unique index on \<open>(url, source_id)\<close> makes \<open>insert_one\<close>
  raise \<open>DuplicateKeyError\<close>, which is caught: the result is \<open>None\<close> and the store is
  unchanged.  Otherwise the document is inserted under a fresh id.
\<close>

definition duplicate_key :: "db \<Rightarrow> Document \<Rightarrow> bool" where
  "duplicate_key d document =
     list_ex (\<lambda>(i, doc). doc_url doc = doc_url document \<and> source_id doc = source_id document)
       (documents d)"

definition create_document :: "db \<Rightarrow> Document \<Rightarrow> nat \<Rightarrow> nat option \<times> db" where
  "create_document d document now =
     (if duplicate_key d document then (None, d)
      else (Some (next_id d),
            d\<lparr>documents := documents d @ [(next_id d, document\<lparr>crawled_at := now\<rparr>)],
              next_id := next_id d + 1\<rparr>))"

definition save_crawl_stats :: "db \<Rightarrow> CrawlStats \<Rightarrow> db" where
  "save_crawl_stats d st = d\<lparr>crawl_stats := crawl_stats d @ [st]\<rparr>"

definition count_documents :: "db \<Rightarrow> string \<Rightarrow> nat" where
  "count_documents d sid = length (filter (\<lambda>(i, doc). source_id doc = sid) (documents d))"

subsection \<open>Snippets\<close>

text \<open>
  The texts \<open>_generate_snippet\<close> works on are Python \<open>str\<close> values, which may hold
  any code point: a \<open>ustr\<close> is a list of code points.  \<open>str.lower\<close> and \<open>str.split\<close>
  are the language's own; they are parameters (\<open>lower_fn\<close>, \<open>split_fn\<close>) of the
  model, so nothing is assumed of them: \<open>str.lower\<close> need not keep the length of a
  string (it maps the one code point U+0130 to two).
\<close>

type_synonym ustr = "nat list"

definition codes :: "string \<Rightarrow> ustr" where
  "codes s = map of_char s"

definition dots :: ustr where
  "dots = codes ''...''"

text \<open>One round of the loop over the keywords in \<open>_generate_snippet\<close>.\<close>

definition best_step :: "'a list \<Rightarrow> 'a list \<Rightarrow> int \<Rightarrow> int" where
  "best_step text_lower keyword best_pos =
     (let pos = py_find text_lower keyword
      in if pos \<noteq> - 1
         then (if best_pos = - 1 \<or> pos < best_pos then pos else best_pos)
         else best_pos)"

definition generate_snippet ::
  "(ustr \<Rightarrow> ustr) \<Rightarrow> (ustr \<Rightarrow> ustr list) \<Rightarrow> ustr \<Rightarrow> ustr \<Rightarrow> int \<Rightarrow> ustr" where
  "generate_snippet lower_fn split_fn text keywords max_length =
     (if text = [] then []
      else
        let keywords_list = split_fn (lower_fn keywords);
            text_lower = lower_fn text;
            best_pos = fold (best_step text_lower) keywords_list (- 1)
        in if best_pos = - 1
           then py_slice text 0 max_length
                  @ (if int (length text) > max_length then dots else [])
           else
             let start = max 0 (best_pos - max_length div 2);
                 end = min (int (length text)) (best_pos + max_length div 2);
                 snippet = py_slice text start end;
                 snippet = (if start > 0 then dots @ snippet else snippet);
                 snippet = (if end < int (length text) then snippet @ dots else snippet)
             in snippet)"




text \<open>
  For the concrete runs: lower-casing one code point at a time, with the ASCII
  letters and U+0130 (whose lower case is the two code points U+0069 U+0307), and
  splitting at the ASCII whitespace.
\<close>

definition example_lower_cp :: "nat \<Rightarrow> ustr" where
  "example_lower_cp n =
     (if 65 \<le> n \<and> n \<le> 90 then [n + 32] else if n = 304 then [105, 775] else [n])"

definition example_lower :: "ustr \<Rightarrow> ustr" where
  "example_lower s = concat (map example_lower_cp s)"

definition example_split :: "ustr \<Rightarrow> ustr list" where
  "example_split s = split_on (\<lambda>n. (9 \<le> n \<and> n \<le> 13) \<or> (28 \<le> n \<and> n \<le> 32)) [] s"


section \<open>Blocking detector (src/crawler/blocking_detector.py)\<close>

text \<open>
  The regular-expression engine and the HTML parser library are not part of the
  repository.  What they report on a response body is taken as a parameter:
  \<^item> \<open>captcha_regex_search\<close>: \<open>self.captcha_regex.search(html)\<close> found a match;
  \<^item> \<open>captcha_indicators\<close>: the four \<open>soup.find\<close> results of \<open>detect_captcha\<close>, each
    as found / not found, or \<open>None\<close> when decoding or parsing raised;
  \<^item> \<open>cf_wrapper\<close>: \<open>soup.find('div', {'id': 'cf-wrapper'})\<close> found an element;
  \<^item> \<open>ip_ban_regex_search\<close>: \<open>self.ip_ban_regex.search(text)\<close> found a match, or
    \<open>None\<close> when decoding raised.
\<close>

record body_lib =
  captcha_regex_search :: "bytes \<Rightarrow> bool"
  captcha_indicators :: "bytes \<Rightarrow> bool list option"
  cf_wrapper :: "bytes \<Rightarrow> bool"
  ip_ban_regex_search :: "bytes \<Rightarrow> bool option"

definition BLOCK_STATUS_CODES :: "int list" where
  "BLOCK_STATUS_CODES = [403, 429, 503]"

definition detect_http_block :: "int \<Rightarrow> string option" where
  "detect_http_block status_code =
     (if status_code = 403 then Some ''HTTP_403_FORBIDDEN''
      else if status_code = 429 then Some ''HTTP_429_RATE_LIMIT''
      else if status_code = 503 then Some ''HTTP_503_SERVICE_UNAVAILABLE''
      else if status_code \<in> set BLOCK_STATUS_CODES
        then Some (''HTTP_'' @ str_int status_code @ ''_BLOCKED'')
      else None)"

definition detect_captcha :: "body_lib \<Rightarrow> bytes \<Rightarrow> string \<Rightarrow> bool" where
  "detect_captcha lib content u =
     (if captcha_regex_search lib content then True
      else case captcha_indicators lib content of
             None \<Rightarrow> False
           | Some inds \<Rightarrow>
               if list_ex (\<lambda>b. b) inds then True
               else if cf_wrapper lib content then True
               else False)"

definition detect_ip_ban :: "body_lib \<Rightarrow> bytes \<Rightarrow> int \<Rightarrow> bool" where
  "detect_ip_ban lib content status_code =
     (if status_code = 429 then True
      else case ip_ban_regex_search lib content of
             None \<Rightarrow> False
           | Some hit \<Rightarrow> if hit then True else False)"

text \<open>The dictionary \<open>detect_all\<close> returns, one field per key.\<close>

record detection =
  blocked :: bool
  block_type :: "string option"
  http_block :: "string option"
  captcha_detected :: bool
  ip_ban_detected :: bool
  det_status_code :: int

text \<open>\<open>x or default\<close> on an optional string: \<open>None\<close> and the empty string are falsy.\<close>

definition or_else :: "string option \<Rightarrow> string \<Rightarrow> string option" where
  "or_else x d = (case x of None \<Rightarrow> Some d | Some s \<Rightarrow> if s = [] then Some d else Some s)"

definition detect_all :: "body_lib \<Rightarrow> bytes \<Rightarrow> int \<Rightarrow> string \<Rightarrow> detection" where
  "detect_all lib content status_code u =
     (let results0 = \<lparr>blocked = False, block_type = None, http_block = None,
                       captcha_detected = False, ip_ban_detected = False,
                       det_status_code = status_code\<rparr>;
          results1 =
            (case detect_http_block status_code of
               None \<Rightarrow> results0
             | Some hb \<Rightarrow>
                 if hb = [] then results0
                 else results0\<lparr>blocked := True, http_block := Some hb, block_type := Some hb\<rparr>);
          results2 =
            (if detect_captcha lib content u
             then results1\<lparr>blocked := True, captcha_detected := True,
                            block_type := or_else (block_type results1) ''CAPTCHA''\<rparr>
             else results1);
          results3 =
            (if detect_ip_ban lib content status_code
             then results2\<lparr>blocked := True, ip_ban_detected := True,
                            block_type := or_else (block_type results2) ''IP_BAN''\<rparr>
             else results2)
      in results3)"


section \<open>Polite fetcher (src/crawler/base_crawler.py)\<close>

text \<open>
  \<open>self.session.get(url, timeout=...)\<close> belongs to the HTTP library: it either raises
  a \<open>RequestException\<close> (connection error, timeout, or the retry adapter giving up)
  or returns a response with a status code and a body.  \<open>response.raise_for_status()\<close>
  raises \<open>HTTPError\<close>, a \<open>RequestException\<close>, exactly for the statuses 400 to 599.
\<close>

datatype http_outcome = RequestException | Response int bytes

definition raise_for_status :: "int \<Rightarrow> bool" where
  "raise_for_status st = (400 \<le> st \<and> st < 600)"

text \<open>
  \<open>fetch u respect_robots can_fetch outcome\<close> for the URL \<open>u\<close>: \<open>can_fetch\<close> is the value of
  \<open>self.can_fetch(url)\<close>, \<open>outcome\<close> what \<open>session.get\<close> does.  The result is the
  declared \<open>Optional[bytes]\<close>, or the \<open>ValueError\<close> of a robots.txt disallowance.
\<close>

definition fetch :: "string \<Rightarrow> bool \<Rightarrow> bool \<Rightarrow> http_outcome \<Rightarrow> error + bytes option" where
  "fetch u respect_robots can_fetch outcome =
     (if respect_robots \<and> \<not> can_fetch
      then Inl (ValueError (''Robots.txt disallows fetching: '' @ u))
      else case outcome of
             RequestException \<Rightarrow> Inr None
           | Response st body \<Rightarrow>
               if raise_for_status st then Inr None else Inr (Some body))"


section \<open>Parsers (src/crawler/parsers)\<close>

text \<open>The attributes \<open>ParserResult.__init__\<close> sets (base_parser.py).\<close>

record ParserResult =
  pr_url :: string
  pr_content_type :: string
  raw_content :: string
  cleaned_text :: string
  title :: "string option"
  author :: "string option"
  publish_date :: "nat option"
  language :: "string option"
  word_count :: int
  custom_metadata :: "(string \<times> string) list"

definition count_words :: "string \<Rightarrow> int" where
  "count_words t = (if t = [] then 0 else int (length (py_split t)))"

definition ParserResult_init ::
  "string \<Rightarrow> string \<Rightarrow> string \<Rightarrow> string \<Rightarrow> string option \<Rightarrow> string option \<Rightarrow> nat option
     \<Rightarrow> string option \<Rightarrow> int \<Rightarrow> (string \<times> string) list \<Rightarrow> ParserResult" where
  "ParserResult_init u ct raw cleaned ti au pd la wc cm =
     \<lparr>pr_url = u, pr_content_type = ct, raw_content = raw, cleaned_text = cleaned,
      title = ti, author = au, publish_date = pd, language = la,
      word_count = (if wc \<noteq> 0 then wc else count_words cleaned),
      custom_metadata = cm\<rparr>"

text \<open>
  \<open>hasattr(result, a)\<close> on a \<open>ParserResult\<close>: the instance attributes above and the
  two methods of the class.  There is no attribute \<open>next_page\<close> and none called \<open>items\<close>.
\<close>

definition ParserResult_attributes :: "string list" where
  "ParserResult_attributes =
     [''url'', ''content_type'', ''raw_content'', ''cleaned_text'', ''title'', ''author'',
      ''publish_date'', ''language'', ''word_count'', ''custom_metadata'',
      ''_count_words'', ''to_dict'']"

definition hasattr :: "ParserResult \<Rightarrow> string \<Rightarrow> bool" where
  "hasattr r a = (a \<in> set ParserResult_attributes)"

text \<open>Reading an attribute whose value is a string (or \<open>None\<close>).\<close>

definition getattr_str :: "ParserResult \<Rightarrow> string \<Rightarrow> string option" where
  "getattr_str r a =
     (if a = ''url'' then Some (pr_url r)
      else if a = ''content_type'' then Some (pr_content_type r)
      else if a = ''raw_content'' then Some (raw_content r)
      else if a = ''cleaned_text'' then Some (cleaned_text r)
      else if a = ''title'' then title r
      else if a = ''author'' then author r
      else if a = ''language'' then language r
      else None)"

text \<open>Reading an attribute whose value is a list of results; no attribute is one.\<close>

definition getattr_items :: "ParserResult \<Rightarrow> string \<Rightarrow> ParserResult list" where
  "getattr_items r a = []"

subsection \<open>HTML parser (html\_parser.py)\<close>

text \<open>
  The HTML library is not part of the repository.  \<open>soup\<close> gives, for the bytes of a
  page, the text of the exception that decoding or parsing raised, or the parsed
  page.  A parsed page is what the extraction methods read from the soup: the decoded text, title, author, date and
  language, the cleaned visible text, and \<open>next_links\<close>, the results of
  \<open>soup.find('a', pattern)\<close> for the three patterns of \<open>_detect_next_page\<close> in their
  order (\<open>rel = next\<close>, class matching \<open>next\<close>, id matching \<open>next\<close>), each an anchor with
  its \<open>href\<close> or \<open>None\<close>.  \<open>urljoin\<close> is the library function of that name.
\<close>

record anchor =
  href :: "string option"

record html_page =
  html_text :: string
  page_title :: "string option"
  page_author :: "string option"
  page_publish_date :: "nat option"
  page_language :: "string option"
  page_cleaned_text :: string
  next_links :: "anchor option list"

definition startswith :: "string \<Rightarrow> string \<Rightarrow> bool" where
  "startswith s p = (take (length p) s = p)"

fun detect_next_page ::
  "(string \<Rightarrow> string \<Rightarrow> string) \<Rightarrow> anchor option list \<Rightarrow> string \<Rightarrow> string option" where
  "detect_next_page urljoin [] current_url = None"
| "detect_next_page urljoin (next_link # rest) current_url =
     (case next_link of
        None \<Rightarrow> detect_next_page urljoin rest current_url
      | Some a \<Rightarrow>
          (case href a of
             None \<Rightarrow> detect_next_page urljoin rest current_url
           | Some h \<Rightarrow>
               if h = [] then detect_next_page urljoin rest current_url
               else if startswith h ''/'' then Some (urljoin current_url h)
               else if startswith h ''http'' then Some h
               else detect_next_page urljoin rest current_url))"

definition HTMLParser_parse ::
  "(bytes \<Rightarrow> string + html_page) \<Rightarrow> (string \<Rightarrow> string \<Rightarrow> string) \<Rightarrow> bytes \<Rightarrow> string
     \<Rightarrow> error + ParserResult" where
  "HTMLParser_parse soup urljoin content u =
     (case soup content of
        Inl msg \<Rightarrow> Inl (ValueError (''HTML parsing failed: '' @ msg))
      | Inr pg \<Rightarrow>
          (let next_page = detect_next_page urljoin (next_links pg) u;
               custom = (case next_page of
                           None \<Rightarrow> []
                         | Some np \<Rightarrow> if np = [] then [] else [(''next_page'', np)])
           in Inr (ParserResult_init u ''html'' (html_text pg) (page_cleaned_text pg)
                     (page_title pg) (page_author pg) (page_publish_date pg)
                     (page_language pg) 0 custom)))"


section \<open>Crawl manager (src/crawler/crawl\_manager.py)\<close>

text \<open>
  What \<open>self.crawler.fetch(url)\<close> hands to the crawl manager.  The manager tests
  \<open>not response\<close> and reads \<open>response.content\<close> and \<open>response.status_code\<close>: it is
  written for a response object, \<open>ResponseObject c sc t\<close> with content \<open>c\<close>, status code
  \<open>sc\<close> and truth value \<open>t\<close> (what \<open>bool(response)\<close> gives).  \<open>BaseCrawler.fetch\<close>
  returns \<open>bytes\<close> or \<open>None\<close>: \<open>not response\<close> holds for \<open>None\<close> and for empty bytes, and
  reading \<open>.content\<close> or \<open>.status_code\<close> of a \<open>bytes\<close> value raises \<open>AttributeError\<close>.
\<close>

datatype fetched = NoneValue | BytesValue bytes | ResponseObject bytes int bool

fun truthy :: "fetched \<Rightarrow> bool" where
  "truthy NoneValue = False"
| "truthy (BytesValue b) = (b \<noteq> [])"
| "truthy (ResponseObject c sc t) = t"

fun get_content :: "fetched \<Rightarrow> error + bytes" where
  "get_content NoneValue = Inl (AttributeError ''NoneType'' ''content'')"
| "get_content (BytesValue b) = Inl (AttributeError ''bytes'' ''content'')"
| "get_content (ResponseObject c sc t) = Inr c"

fun get_status_code :: "fetched \<Rightarrow> error + int" where
  "get_status_code NoneValue = Inl (AttributeError ''NoneType'' ''status_code'')"
| "get_status_code (BytesValue b) = Inl (AttributeError ''bytes'' ''status_code'')"
| "get_status_code (ResponseObject c sc t) = Inr sc"

text \<open>What \<open>BaseCrawler.fetch\<close> returns, as the value the manager receives.\<close>

definition of_fetch :: "error + bytes option \<Rightarrow> error + fetched" where
  "of_fetch r =
     (case r of
        Inl e \<Rightarrow> Inl e
      | Inr None \<Rightarrow> Inr NoneValue
      | Inr (Some b) \<Rightarrow> Inr (BytesValue b))"

text \<open>The argument of \<open>parser.parse\<close>: response bytes, or the \<open>{}\<close> the Reddit branch passes.\<close>

datatype parse_arg = Content bytes | EmptyDict

text \<open>
  The surroundings of one crawl run: \<open>fetcher n u\<close> is what the \<open>n\<close>-th call of
  \<open>self.crawler.fetch\<close> of the run returns (or raises) for the URL \<open>u\<close>; \<open>body_scan\<close> is
  the detector's view of a body; \<open>parsers\<close> is the dictionary \<open>self.parsers\<close>, which
  \<open>__init__\<close> fills for each of the eight content types, so that \<open>.get\<close> always finds
  a parser and the two \<open>if not parser\<close> branches cannot run; \<open>str_of\<close> is \<open>str(e)\<close>.
\<close>

record crawl_env =
  fetcher :: "nat \<Rightarrow> string \<Rightarrow> error + fetched"
  body_scan :: body_lib
  parsers :: "ContentType \<Rightarrow> parse_arg \<Rightarrow> string \<Rightarrow> error + ParserResult"
  str_of :: "error \<Rightarrow> string"

text \<open>The variables of the loop of \<open>_crawl_traditional\<close>, with the store it writes to.\<close>

record crawl_state =
  results :: "ParserResult list"
  urls_to_crawl :: "string list"
  crawled_urls :: "string set"
  stats :: CrawlStats
  store :: db
  fetches :: nat

datatype flow = Continue crawl_state | Break crawl_state

text \<open>\<open>f"{x}"\<close> of an optional string.\<close>

definition str_opt :: "string option \<Rightarrow> string" where
  "str_opt x = (case x of None \<Rightarrow> ''None'' | Some s \<Rightarrow> s)"

text \<open>The \<open>except Exception\<close> branch of the loop body.\<close>

definition failed_page :: "crawl_env \<Rightarrow> string \<Rightarrow> error \<Rightarrow> crawl_state \<Rightarrow> crawl_state" where
  "failed_page env u e s =
     s\<lparr>stats := (stats s)\<lparr>pages_failed := pages_failed (stats s) + 1,
                           errors := errors (stats s) @ [u @ '': '' @ str_of env e]\<rparr>\<rparr>"

text \<open>
  The loop body of \<open>_crawl_traditional\<close> from the \<open>try\<close> on, for a URL \<open>u\<close> that was
  popped and is not in \<open>crawled_urls\<close>.  \<open>src\<close> is the source with its id.
\<close>

definition visit ::
  "crawl_env \<Rightarrow> string \<times> Source \<Rightarrow> nat \<Rightarrow> string \<Rightarrow> crawl_state \<Rightarrow> flow" where
  "visit env src now u s0 =
     (let s = s0\<lparr>fetches := fetches s0 + 1\<rparr>
      in case fetcher env (fetches s0) u of
           Inl e \<Rightarrow> Continue (failed_page env u e s)
         | Inr response \<Rightarrow>
             if \<not> truthy response
             then Continue (s\<lparr>stats := (stats s)\<lparr>pages_failed := pages_failed (stats s) + 1\<rparr>\<rparr>)
             else
               (case get_content response of
                  Inl e \<Rightarrow> Continue (failed_page env u e s)
                | Inr content \<Rightarrow>
                    (case get_status_code response of
                       Inl e \<Rightarrow> Continue (failed_page env u e s)
                     | Inr status_code \<Rightarrow>
                         (let block_result = detect_all (body_scan env) content status_code u
                          in if blocked block_result
                             then Break (s\<lparr>
                               store := snd (update_source (store s) (fst src)
                                  [Set_status BLOCKED,
                                   Set_last_error
                                     (Some (''Blocked: '' @ str_opt (block_type block_result)))]
                                  now),
                               stats := (stats s)\<lparr>errors := errors (stats s)
                                  @ [''Blocked: '' @ str_opt (block_type block_result)]\<rparr>\<rparr>)
                             else
                               (case parsers env (content_type (snd src))
                                       (Content content) u of
                                  Inl e \<Rightarrow> Continue (failed_page env u e s)
                                | Inr result \<Rightarrow>
                                    (let s1 = s\<lparr>
                                           results := results s @ [result],
                                           crawled_urls := insert u (crawled_urls s),
                                           stats := (stats s)\<lparr>bytes_downloaded :=
                                             bytes_downloaded (stats s)
                                               + int (length content)\<rparr>\<rparr>;
                                         s2 =
                                           (if follow_links (config (snd src))
                                               \<and> hasattr result ''next_page''
                                            then
                                              (case getattr_str result ''next_page'' of
                                                 None \<Rightarrow> s1
                                               | Some np \<Rightarrow>
                                                   if np = [] then s1
                                                   else if np \<in> crawled_urls s1 then s1
                                                   else s1\<lparr>urls_to_crawl :=
                                                          urls_to_crawl s1 @ [np]\<rparr>)
                                            else s1)
                                     in Continue s2))))))"



text \<open>
  The loop of \<open>_crawl_traditional\<close>.  A round pops a URL, so the queue shrinks unless
  a result was appended, and results are bounded by \<open>max_hits\<close>: the loop terminates.
\<close>

lemma failed_page_frame [simp]:
  "results (failed_page env u e s) = results s"
  "urls_to_crawl (failed_page env u e s) = urls_to_crawl s"
  "crawled_urls (failed_page env u e s) = crawled_urls s"
  "store (failed_page env u e s) = store s"
  "fetches (failed_page env u e s) = fetches s"
  by (simp_all add: failed_page_def)

lemma visit_Continue:
  assumes "visit env src now u s = Continue s'"
  shows "(results s' = results s \<and> urls_to_crawl s' = urls_to_crawl s)
         \<or> (length (results s') = Suc (length (results s))
             \<and> length (urls_to_crawl s') \<le> Suc (length (urls_to_crawl s)))"
  using assms
  by (auto simp: visit_def Let_def split: sum.splits if_splits option.splits)

function crawl_loop ::
  "crawl_env \<Rightarrow> string \<times> Source \<Rightarrow> nat \<Rightarrow> crawl_state \<Rightarrow> crawl_state" where
  "crawl_loop env src now s =
     (if urls_to_crawl s \<noteq> [] \<and> int (length (results s)) < max_hits (config (snd src))
      then
        (let u = hd (urls_to_crawl s);
             s1 = s\<lparr>urls_to_crawl := tl (urls_to_crawl s)\<rparr>
         in if u \<in> crawled_urls s1 then crawl_loop env src now s1
            else (case visit env src now u s1 of
                    Break s2 \<Rightarrow> s2
                  | Continue s2 \<Rightarrow> crawl_loop env src now s2))
      else s)"
  by pat_completeness auto
termination
proof (relation "measure (\<lambda>(env, src, now, s).
          2 * nat (max_hits (config (snd src)) - int (length (results s)))
            + length (urls_to_crawl s))")
  show "wf (measure (\<lambda>(env, src, now, s).
          2 * nat (max_hits (config (snd src)) - int (length (results s)))
            + length (urls_to_crawl s)))" by simp
next
  fix env :: crawl_env and src :: "string \<times> Source" and now :: nat and s x xa
  assume "urls_to_crawl s \<noteq> [] \<and> int (length (results s)) < max_hits (config (snd src))"
    "x = hd (urls_to_crawl s)" "xa = s\<lparr>urls_to_crawl := tl (urls_to_crawl s)\<rparr>"
  then show "((env, src, now, xa), env, src, now, s) \<in> measure (\<lambda>(env, src, now, s).
          2 * nat (max_hits (config (snd src)) - int (length (results s)))
            + length (urls_to_crawl s))"
    by (cases "urls_to_crawl s") auto
next
  fix env :: crawl_env and src :: "string \<times> Source" and now :: nat and s x xa x2
  assume a: "urls_to_crawl s \<noteq> [] \<and> int (length (results s)) < max_hits (config (snd src))"
    "x = hd (urls_to_crawl s)" "xa = s\<lparr>urls_to_crawl := tl (urls_to_crawl s)\<rparr>"
    "visit env src now x xa = Continue x2"
  from visit_Continue [OF a(4)] a(1,3)
  show "((env, src, now, x2), env, src, now, s) \<in> measure (\<lambda>(env, src, now, s).
          2 * nat (max_hits (config (snd src)) - int (length (results s)))
            + length (urls_to_crawl s))"
    by (cases "urls_to_crawl s") auto
qed

declare crawl_loop.simps [simp del]

definition crawl_traditional ::
  "crawl_env \<Rightarrow> string \<times> Source \<Rightarrow> nat \<Rightarrow> CrawlStats \<Rightarrow> db \<Rightarrow> crawl_state" where
  "crawl_traditional env src now st d =
     crawl_loop env src now
       \<lparr>results = [], urls_to_crawl = [url (snd src)], crawled_urls = {},
        stats = st, store = d, fetches = 0\<rparr>"

text \<open>
  \<open>_crawl_social_media\<close>: one fetch and one parse.  The \<open>except\<close> branch counts a
  failed page and records the error; every return but the early one after an empty
  fetch ends in \<open>results[:max_hits]\<close>.
\<close>

definition social_error :: "crawl_env \<Rightarrow> error \<Rightarrow> CrawlStats \<Rightarrow> CrawlStats" where
  "social_error env e st =
     st\<lparr>pages_failed := pages_failed st + 1,
        errors := errors st @ [''Social media error: '' @ str_of env e]\<rparr>"

definition crawl_social_media ::
  "crawl_env \<Rightarrow> string \<times> Source \<Rightarrow> CrawlStats \<Rightarrow> ParserResult list \<times> CrawlStats" where
  "crawl_social_media env src st =
     (let source = snd src; ct = content_type source; mh = max_hits (config source);
          parser = parsers env ct
      in case fetcher env 0 (url source) of
           Inl e \<Rightarrow> (py_slice [] 0 mh, social_error env e st)
         | Inr response \<Rightarrow>
             if \<not> truthy response
             then ([], st\<lparr>pages_failed := pages_failed st + 1\<rparr>)
             else
               (case get_content response of
                  Inl e \<Rightarrow> (py_slice [] 0 mh, social_error env e st)
                | Inr content \<Rightarrow>
                    (let st1 = st\<lparr>bytes_downloaded := bytes_downloaded st
                                 + (if content \<noteq> [] then int (length content) else 0)\<rparr>;
                         single = (\<lambda>parsed.
                           case parsed of
                             Inl e \<Rightarrow> (py_slice [] 0 mh, social_error env e st1)
                           | Inr result \<Rightarrow> (py_slice [result] 0 mh, st1));
                         listing = (\<lambda>parsed.
                           case parsed of
                             Inl e \<Rightarrow> (py_slice [] 0 mh, social_error env e st1)
                           | Inr result \<Rightarrow>
                               if hasattr result ''items''
                               then (py_slice (py_slice (getattr_items result ''items'') 0 mh)
                                       0 mh, st1)
                               else (py_slice [result] 0 mh, st1))
                     in if ct = TWITTER then single (parser (Content content) (url source))
                        else if ct = REDDIT then listing (parser EmptyDict (url source))
                        else if ct = YOUTUBE
                          then listing (parser (Content content) (url source))
                        else if ct = LINKEDIN
                          then single (parser (Content content) (url source))
                        else (py_slice [] 0 mh, st1))))"

text \<open>
  \<open>_store_document\<close>: \<open>result.to_dict()\<close>, the \<open>Document\<close> built from it (the metadata
  model refuses a negative \<open>word_count\<close>), then \<open>create_document\<close>, whose result only
  chooses between two debug messages.
\<close>

definition to_document :: "string \<times> Source \<Rightarrow> nat \<Rightarrow> ParserResult \<Rightarrow> error + Document" where
  "to_document src now result =
     (if word_count result < 0
      then Inl (ValidationError ''DocumentMetadata'')
      else Inr \<lparr>doc_url = pr_url result, source_id = fst src,
                doc_content_type = content_type (snd src),
                doc_raw_content = raw_content result,
                doc_cleaned_text = cleaned_text result,
                metadata = \<lparr>md_title = title result, md_author = author result,
                             md_publish_date = publish_date result,
                             md_language = language result,
                             md_word_count = word_count result, md_keywords = [],
                             md_custom = custom_metadata result\<rparr>,
                crawl_config_snapshot = config (snd src), crawled_at = now\<rparr>)"

definition store_document ::
  "string \<times> Source \<Rightarrow> nat \<Rightarrow> db \<Rightarrow> ParserResult \<Rightarrow> error + db" where
  "store_document src now d result =
     (case to_document src now result of
        Inl e \<Rightarrow> Inl e
      | Inr document \<Rightarrow> Inr (snd (create_document d document now)))"

text \<open>
  The store loop of \<open>crawl_source\<close>, on the triple of \<open>documents_stored\<close>, the
  statistics and the store.
\<close>

fun store_loop ::
  "crawl_env \<Rightarrow> string \<times> Source \<Rightarrow> nat \<Rightarrow> ParserResult list \<Rightarrow> int \<times> CrawlStats \<times> db
     \<Rightarrow> int \<times> CrawlStats \<times> db" where
  "store_loop env src now [] acc = acc"
| "store_loop env src now (result # rest) (documents_stored, st, d) =
     (if pages_crawled st \<ge> max_hits (config (snd src)) then (documents_stored, st, d)
      else case store_document src now d result of
             Inr d' \<Rightarrow>
               store_loop env src now rest
                 (documents_stored + 1, st\<lparr>pages_crawled := pages_crawled st + 1\<rparr>, d')
           | Inl e \<Rightarrow>
               store_loop env src now rest
                 (documents_stored,
                  st\<lparr>pages_failed := pages_failed st + 1,
                     errors := errors st @ [str_of env e]\<rparr>, d))"

definition is_social :: "ContentType \<Rightarrow> bool" where
  "is_social ct = (ct \<in> set [TWITTER, REDDIT, YOUTUBE])"

text \<open>
  \<open>crawl_source\<close>.  The result is the exception raised or the statistics returned,
  with the store afterwards.  \<open>get_source\<close> may raise before the \<open>try\<close>; inside it the
  division by \<open>rate_limit_per_minute\<close> is the one step of this model that could
  raise, and for a source that \<open>get_source\<close> returned it does not.
\<close>

definition crawl_source ::
  "crawl_env \<Rightarrow> db \<Rightarrow> string \<Rightarrow> nat \<Rightarrow> (error + CrawlStats) \<times> db" where
  "crawl_source env d sid now =
     (case get_source d sid of
        Inl e \<Rightarrow> (Inl e, d)
      | Inr None \<Rightarrow> (Inl (ValueError (''Source not found: '' @ sid)), d)
      | Inr (Some src) \<Rightarrow>
          (let source = snd src;
               st0 = \<lparr>stats_source_id = sid, pages_crawled = 0, pages_failed = 0,
                      bytes_downloaded = 0, duration_seconds = 0, started_at = now,
                      completed_at = None, errors = []\<rparr>;
               d1 = snd (update_source d sid [Set_status RUNNING, Set_last_crawl now] now)
           in if rate_limit_per_minute (config source) = 0
              then
                (let st = st0\<lparr>completed_at := Some now,
                             errors := errors st0 @ [str_of env ZeroDivisionError]\<rparr>;
                     d2 = snd (update_source d1 sid
                            [Set_status FAILED,
                             Set_last_error (Some (str_of env ZeroDivisionError))] now)
                 in (Inr st, d2))
              else
                (let (res, st1, d2) =
                       (if is_social (content_type source)
                        then (let (r, st) = crawl_social_media env src st0 in (r, st, d1))
                        else (let s = crawl_traditional env src now st0 d1
                              in (results s, stats s, store s)));
                     (documents_stored, st2, d3) = store_loop env src now res (0, st1, d2);
                     st3 = st2\<lparr>completed_at := Some now, duration_seconds := 0\<rparr>;
                     d4 = snd (update_source d3 sid
                            [Set_status COMPLETED,
                             Set_total_documents (total_documents source + documents_stored),
                             Set_last_error None] now);
                     d5 = save_crawl_stats d4 st3
                 in (Inr st3, d5))))"


section \<open>Scheduler (src/crawler/scheduler.py)\<close>

text \<open>
  A job of the job runtime: the cron job of a source, or a one-shot manual job with
  the time stamp its id carries; both run \<open>_crawl_job(source_id)\<close>.
\<close>

datatype job = CronJob string | ManualJob string nat

record scheduler =
  active_crawls :: "string \<rightharpoonup> bool"
  jobs :: "job list"

text \<open>\<open>self.active_crawls.get(source_id, False)\<close>.\<close>

definition is_active :: "scheduler \<Rightarrow> string \<Rightarrow> bool" where
  "is_active sch sid = (case active_crawls sch sid of None \<Rightarrow> False | Some b \<Rightarrow> b)"

definition trigger_source_crawl :: "scheduler \<Rightarrow> string \<Rightarrow> nat \<Rightarrow> bool \<times> scheduler" where
  "trigger_source_crawl sch sid now =
     (if is_active sch sid then (False, sch)
      else (True, sch\<lparr>jobs := jobs sch @ [ManualJob sid now]\<rparr>))"

text \<open>
  \<open>_crawl_job\<close>, run from its first statement to its last.  \<open>job_begin\<close> is the test
  of the mark followed by \<open>job_mark\<close>, the assignment that sets it: \<open>None\<close> when the
  source is already marked (the job returns at once).  \<open>execute_crawl\<close> is
  \<open>_execute_crawl\<close>: it runs \<open>crawl_source\<close>, catches and logs whatever it raises, and
  clears the mark in its \<open>finally\<close>.  Since \<open>_execute_crawl\<close> lets no exception out,
  the \<open>except\<close> branch of \<open>_crawl_job\<close> never runs.
\<close>

definition job_mark :: "scheduler \<Rightarrow> string \<Rightarrow> scheduler" where
  "job_mark sch sid = sch\<lparr>active_crawls := (active_crawls sch)(sid \<mapsto> True)\<rparr>"

definition job_begin :: "scheduler \<Rightarrow> string \<Rightarrow> scheduler option" where
  "job_begin sch sid = (if is_active sch sid then None else Some (job_mark sch sid))"

definition job_end :: "scheduler \<Rightarrow> string \<Rightarrow> scheduler" where
  "job_end sch sid = sch\<lparr>active_crawls := (active_crawls sch)(sid \<mapsto> False)\<rparr>"

definition execute_crawl ::
  "crawl_env \<Rightarrow> scheduler \<times> db \<Rightarrow> string \<Rightarrow> nat \<Rightarrow> scheduler \<times> db" where
  "execute_crawl env sys sid now =
     (let (outcome, d) = crawl_source env (snd sys) sid now
      in (job_end (fst sys) sid, d))"

definition crawl_job ::
  "crawl_env \<Rightarrow> scheduler \<times> db \<Rightarrow> string \<Rightarrow> nat \<Rightarrow> scheduler \<times> db" where
  "crawl_job env sys sid now =
     (case job_begin (fst sys) sid of
        None \<Rightarrow> sys
      | Some sch \<Rightarrow> execute_crawl env (sch, snd sys) sid now)"



text \<open>
  The job runtime is a \<open>BackgroundScheduler\<close>: it runs \<open>_crawl_job\<close> of every due job on
  a worker thread of its pool, and jobs with different ids (the cron job and a
  manual job of one source, or two manual jobs) run on different workers at the
  same time.  The workers share \<open>active_crawls\<close> and the store, and \<open>_crawl_job\<close>
  holds no lock: its test of the mark, its assignment to the mark and its call of
  \<open>_execute_crawl\<close> are separate statements, between which another worker may run.
  A worker is at one of these places in \<open>_crawl_job\<close>:

  \<^item> \<open>AtCheck\<close>: before the test \<open>if self.active_crawls.get(source_id, False)\<close>;
  \<^item> \<open>AtMark\<close>: past the test, before \<open>self.active_crawls[source_id] = True\<close>;
  \<^item> \<open>Crawling\<close>: the mark is set and \<open>_execute_crawl\<close> is running the crawl;
  \<^item> \<open>Skipped\<close>: returned from the test without crawling;
  \<^item> \<open>Done\<close>: \<open>_execute_crawl\<close> has returned, its \<open>finally\<close> has cleared the mark.

  \<open>worker_step env now i\<close> lets worker \<open>i\<close> run its next statement; the crawl itself
  is one step.
\<close>

datatype place = AtCheck | AtMark | Crawling | Skipped | Done

type_synonym workers = "(string \<times> place) list"

definition worker_step ::
  "crawl_env \<Rightarrow> nat \<Rightarrow> nat \<Rightarrow> scheduler \<times> db \<times> workers \<Rightarrow> scheduler \<times> db \<times> workers" where
  "worker_step env now i sys =
     (let (sch, d, ws) = sys
      in if i < length ws
         then
           (let sid = fst (ws ! i)
            in case snd (ws ! i) of
                 AtCheck \<Rightarrow>
                   if is_active sch sid then (sch, d, ws[i := (sid, Skipped)])
                   else (sch, d, ws[i := (sid, AtMark)])
               | AtMark \<Rightarrow> (job_mark sch sid, d, ws[i := (sid, Crawling)])
               | Crawling \<Rightarrow>
                   (let (sch', d') = execute_crawl env (sch, d) sid now
                    in (sch', d', ws[i := (sid, Done)]))
               | Skipped \<Rightarrow> sys
               | Done \<Rightarrow> sys)
         else sys)"

text \<open>A schedule is the order in which the workers take their steps.\<close>

definition run_schedule ::
  "crawl_env \<Rightarrow> nat \<Rightarrow> nat list \<Rightarrow> scheduler \<times> db \<times> workers \<Rightarrow> scheduler \<times> db \<times> workers" where
  "run_schedule env now schedule sys = fold (worker_step env now) schedule sys"

text \<open>The crawl runs of a source that are in progress.\<close>

definition active_runs :: "workers \<Rightarrow> string \<Rightarrow> nat" where
  "active_runs ws sid = length (filter (\<lambda>w. w = (sid, Crawling)) ws)"

definition new_scheduler :: scheduler where
  "new_scheduler = \<lparr>active_crawls = Map.empty, jobs = []\<rparr>"



section \<open>Example data\<close>

text \<open>
  A small store and two sets of surroundings, for the concrete runs below: one HTML
  source of one project, with one stored document and one statistics record; a
  fetcher that answers every URL with a page carrying a \<open>rel = next\<close> link to
  \<open>/page2\<close>; and a fetcher that answers with a CAPTCHA page.
\<close>

definition example_source_id :: string where
  "example_source_id = ''507f1f77bcf86cd799439011''"

definition example_project_id :: string where
  "example_project_id = ''507f191e810c19729de860ea''"

definition example_config :: CrawlConfig where
  "example_config =
     \<lparr>frequency = ''0 0 * * *'', max_hits = 10, enabled = True, follow_links = True,
      max_depth = 1, rate_limit_per_minute = 30\<rparr>"

definition example_source :: Source where
  "example_source =
     \<lparr>name = ''Blog'', url = ''http://example.com/'',
      project_id = Some example_project_id, content_type = HTML,
      config = example_config, status = IDLE, last_crawl = None, last_error = None,
      total_documents = 1, updated_at = 0\<rparr>"

definition example_project :: Project where
  "example_project =
     \<lparr>project_name = ''Research'', domain = ''Technology'', target_keywords = [''python'']\<rparr>"

definition example_document :: Document where
  "example_document =
     \<lparr>doc_url = ''http://example.com/'', source_id = example_source_id,
      doc_content_type = HTML, doc_raw_content = ''<html>old</html>'',
      doc_cleaned_text = ''old'',
      metadata = \<lparr>md_title = None, md_author = None, md_publish_date = None,
                   md_language = None, md_word_count = 1, md_keywords = [],
                   md_custom = []\<rparr>,
      crawl_config_snapshot = example_config, crawled_at = 1\<rparr>"

definition example_stats :: CrawlStats where
  "example_stats =
     \<lparr>stats_source_id = example_source_id, pages_crawled = 1, pages_failed = 0,
      bytes_downloaded = 16, duration_seconds = 0, started_at = 1,
      completed_at = Some 1, errors = []\<rparr>"

definition example_db :: db where
  "example_db =
     \<lparr>projects = [example_project_id \<mapsto> example_project],
      sources = [example_source_id \<mapsto> example_source],
      documents = [(0, example_document)],
      crawl_stats = [example_stats],
      next_id = 1\<rparr>"

definition example_page :: html_page where
  "example_page =
     \<lparr>html_text = ''<a rel=next href=/page2>more</a>'', page_title = Some ''Home'',
      page_author = None, page_publish_date = None, page_language = None,
      page_cleaned_text = ''more'',
      next_links = [Some \<lparr>href = Some ''/page2''\<rparr>, None, None]\<rparr>"

text \<open>
  The example parser is the HTML parser over a library that parses every page to
  \<open>example_page\<close>; no run below hands it the empty dictionary.  \<open>example_str\<close> is
  \<open>str(e)\<close>: the message of a \<open>ValueError\<close>, the language's text for a missing
  attribute and for a float division by zero, and of a \<open>ValidationError\<close> the first
  line of its message.
\<close>

definition example_parser :: "parse_arg \<Rightarrow> string \<Rightarrow> error + ParserResult" where
  "example_parser a u =
     (case a of
        Content c \<Rightarrow>
          HTMLParser_parse (\<lambda>b. Inr example_page) (\<lambda>base h. ''http://example.com'' @ h) c u
      | EmptyDict \<Rightarrow> Inl (ValueError ''HTML parsing failed: dict''))"

fun example_str :: "error \<Rightarrow> string" where
  "example_str (ValueError m) = m"
| "example_str (AttributeError t a) =
     [CHR 0x27] @ t @ [CHR 0x27] @ '' object has no attribute '' @ [CHR 0x27] @ a @ [CHR 0x27]"
| "example_str ZeroDivisionError = ''float division by zero''"
| "example_str (ValidationError m) = ''1 validation error for '' @ m"

definition quiet_lib :: body_lib where
  "quiet_lib =
     \<lparr>captcha_regex_search = (\<lambda>b. False),
      captcha_indicators = (\<lambda>b. Some [False, False, False, False]),
      cf_wrapper = (\<lambda>b. False),
      ip_ban_regex_search = (\<lambda>b. Some False)\<rparr>"


definition example_env :: crawl_env where
  "example_env =
     \<lparr>fetcher = (\<lambda>n u. Inr (ResponseObject ''<a rel=next href=/page2>more</a>'' 200 True)),
      body_scan = quiet_lib,
      parsers = (\<lambda>ct. example_parser),
      str_of = example_str\<rparr>"


definition fresh_stats :: CrawlStats where
  "fresh_stats =
     \<lparr>stats_source_id = example_source_id, pages_crawled = 0, pages_failed = 0,
      bytes_downloaded = 0, duration_seconds = 0, started_at = 5,
      completed_at = None, errors = []\<rparr>"



text \<open>
  The body the example fetcher answers with, and what the HTML parser makes of it at
  the URL of the example source.
\<close>

definition example_body :: bytes where
  "example_body = ''<a rel=next href=/page2>more</a>''"

definition example_result :: ParserResult where
  "example_result =
     \<lparr>pr_url = ''http://example.com/'', pr_content_type = ''html'',
      raw_content = ''<a rel=next href=/page2>more</a>'', cleaned_text = ''more'',
      title = Some ''Home'', author = None, publish_date = None, language = None,
      word_count = 1,
      custom_metadata = [(''next_page'', ''http://example.com/page2'')]\<rparr>"

text \<open>
  Two sets of surroundings whose fetcher is \<open>BaseCrawler.fetch\<close> itself, with robots.txt
  allowing the fetch: the server answers 429, or 200 with the example body.
\<close>

definition rate_limited_env :: crawl_env where
  "rate_limited_env =
     example_env\<lparr>fetcher :=
       (\<lambda>n u. of_fetch (fetch u True True (Response 429 ''Too Many Requests'')))\<rparr>"

definition bytes_env :: crawl_env where
  "bytes_env =
     example_env\<lparr>fetcher :=
       (\<lambda>n u. of_fetch (fetch u True True (Response 200 example_body)))\<rparr>"


section \<open>Properties of the blocking detector\<close>

lemma detect_http_block_429: "detect_http_block 429 = Some ''HTTP_429_RATE_LIMIT''"
  by (simp add: detect_http_block_def)

lemma detect_ip_ban_429: "detect_ip_ban lib content 429 = True"
  by (simp add: detect_ip_ban_def)

text \<open>
  Claim C7.  For every body and url, \<open>detect_all(body, 429, url)\<close> reports
  \<open>blocked = True\<close>, the HTTP flag \<open>http_block = HTTP_429_RATE_LIMIT\<close> and the IP-ban
  flag both set, and \<open>block_type = HTTP_429_RATE_LIMIT\<close>: the HTTP block is written
  first and the later \<open>or\<close> keeps it, whatever the CAPTCHA check says; the CAPTCHA
  flag is set beside the other two exactly when \<open>detect_captcha\<close> fires.
\<close>

theorem detect_all_429:
  "blocked (detect_all lib body 429 u)
   \<and> http_block (detect_all lib body 429 u) = Some ''HTTP_429_RATE_LIMIT''
   \<and> ip_ban_detected (detect_all lib body 429 u)
   \<and> block_type (detect_all lib body 429 u) = Some ''HTTP_429_RATE_LIMIT''
   \<and> captcha_detected (detect_all lib body 429 u) = detect_captcha lib body u
   \<and> det_status_code (detect_all lib body 429 u) = 429"
  by (simp add: detect_all_def detect_http_block_429 detect_ip_ban_429 or_else_def Let_def)


section \<open>Properties of the fetcher\<close>

text \<open>
  Claim C3 says that a response with an ordinary 4xx or 5xx status is surfaced, with
  its status code, so that the blocking detector can classify it.  The code does not
  do that.  For a fetch that robots.txt allows, \<open>raise_for_status\<close> turns every status
  from 400 to 599 into a \<open>RequestException\<close>, which \<open>fetch\<close> catches: the result is
  \<open>None\<close>, with no status code, whether or not a retry took place.  A response with
  any other status returns its body as bare bytes, again without the status code.
  Both callers in the crawl manager read \<open>response.content\<close> and
  \<open>response.status_code\<close> of what \<open>fetch\<close> returns and hand the status to
  \<open>detect_all\<close>; \<open>_crawl_rss\<close> beside them treats the same value as bytes.
\<close>

theorem fetch_error_status_is_None:
  assumes "respect_robots \<longrightarrow> can_fetch"
  shows "fetch u respect_robots can_fetch (Response st body)
           = (if 400 \<le> st \<and> st < 600 then Inr None else Inr (Some body))
         \<and> fetch u respect_robots can_fetch RequestException = Inr None"
  using assms by (auto simp add: fetch_def raise_for_status_def)

theorem fetch_error_status_is_None_witness:
  "fetch ''http://example.com/a'' True True (Response 429 ''slow down'') = Inr None
   \<and> fetch ''http://example.com/a'' True True (Response 200 ''ok'') = Inr (Some ''ok'')
   \<and> fetch ''http://example.com/a'' True True RequestException = Inr None"
  using fetch_error_status_is_None [of True True "''http://example.com/a''" 429 "''slow down''"]
        fetch_error_status_is_None [of True True "''http://example.com/a''" 200 "''ok''"]
  by simp

text \<open>
  At a plain 404 no retry is involved (404 is not in the retry adapter's status
  list), yet the result is \<open>None\<close> and not the response.
\<close>

theorem fetch_404_counterexample:
  "fetch ''http://example.com/missing'' True True (Response 404 ''Not Found'') = Inr None
   \<and> fetch ''http://example.com/missing'' True True (Response 404 ''Not Found'')
         \<noteq> Inr (Some ''Not Found'')"
  by (simp add: fetch_def raise_for_status_def)

text \<open>
  What this does to the crawl manager.  Whatever \<open>BaseCrawler.fetch\<close> returns, the loop
  body of \<open>_crawl_traditional\<close> counts a failed page and goes on: \<open>None\<close> and empty bytes
  fail the test \<open>not response\<close>, and bytes have no attribute \<open>content\<close>.  The
  detector is never called, so no status is ever classified.
\<close>

lemma visit_of_fetch:
  assumes "fetcher env (fetches s) u = of_fetch (fetch u respect_robots can_fetch outcome)"
  shows "\<exists>s'. visit env src now u s = Continue s'
              \<and> store s' = store s \<and> results s' = results s
              \<and> pages_failed (stats s') = pages_failed (stats s) + 1"
  using assms
  by (auto simp add: visit_def of_fetch_def fetch_def failed_page_def Let_def
           split: http_outcome.splits)

text \<open>
  A run against a server that answers 429: one failed page, no error recorded, and
  the source ends \<open>completed\<close>.  A run against a server that answers 200: the page
  fails with the \<open>AttributeError\<close>.
\<close>

lemma rate_limited_run_example:
  "fetcher rate_limited_env 0 ''http://example.com/'' = Inr NoneValue
   \<and> map_option (\<lambda>s. (status s, last_error s))
        (sources (snd (crawl_source rate_limited_env example_db example_source_id 5))
           example_source_id) = Some (COMPLETED, None)
   \<and> map_option (\<lambda>st. (pages_crawled st, pages_failed st, errors st))
        (case fst (crawl_source rate_limited_env example_db example_source_id 5) of
           Inl e \<Rightarrow> None | Inr st \<Rightarrow> Some st) = Some (0, 1, [])"
  by code_simp

lemma bytes_run_example:
  "fetcher bytes_env 0 ''http://example.com/'' = Inr (BytesValue example_body)
   \<and> map_option (\<lambda>st. (pages_crawled st, pages_failed st, errors st))
        (case fst (crawl_source bytes_env example_db example_source_id 5) of
           Inl e \<Rightarrow> None | Inr st \<Rightarrow> Some st)
       = Some (0, 1,
           [''http://example.com/: '' @ example_str (AttributeError ''bytes'' ''content'')])"
  by code_simp


section \<open>Properties of the snippet generator\<close>























text \<open>
  Outside the theorem's texts: the index is found in the lower-cased text and used
  on the text itself.  A text with four U+0130 in front of \<open>needle\<close> is four code
  points shorter than its lower-casing, and the window misses the term.
\<close>

lemma generate_snippet_index_shift:
  "length (example_lower (replicate 4 304 @ codes '' needle tail'')) = 20
   \<and> length (replicate 4 304 @ codes '' needle tail'') = 16
   \<and> generate_snippet example_lower example_split
        (replicate 4 304 @ codes '' needle tail'') (codes ''needle'') 4
       = codes ''...edle...''"
  by code_simp


section \<open>Properties of the store\<close>









text \<open>A malformed id deletes nothing.\<close>

lemma delete_malformed:
  "ObjectId pid = None \<Longrightarrow> delete_project d pid = (False, d)"
  "ObjectId sid = None \<Longrightarrow> delete_source d sid = (False, d)"
  by (simp_all add: delete_project_def delete_source_def)


section \<open>Properties of the crawl manager\<close>

subsection \<open>Store operations\<close>

lemma update_source_frame:
  "documents (snd (update_source d sid ups now)) = documents d"
  "crawl_stats (snd (update_source d sid ups now)) = crawl_stats d"
  "projects (snd (update_source d sid ups now)) = projects d"
  "next_id (snd (update_source d sid ups now)) = next_id d"
  by (simp_all add: update_source_def split: option.splits)

lemma update_source_other:
  "ObjectId sid = Some obj_id \<Longrightarrow> k \<noteq> obj_id
     \<Longrightarrow> sources (snd (update_source d sid ups now)) k = sources d k"
  by (simp add: update_source_def split: option.splits)

lemma update_source_hit:
  "ObjectId sid = Some obj_id \<Longrightarrow> sources d obj_id = Some s
     \<Longrightarrow> sources (snd (update_source d sid ups now)) obj_id
           = Some (fold apply_update (ups @ [Set_updated_at now]) s)"
  by (simp add: update_source_def)

lemma update_source_present:
  "(sources (snd (update_source d sid ups now)) k = None) = (sources d k = None)"
  by (auto simp add: update_source_def split: option.splits)

lemma create_document_duplicate:
  "duplicate_key d document \<Longrightarrow> create_document d document now = (None, d)"
  by (simp add: create_document_def)

lemma create_document_frame:
  "sources (snd (create_document d document now)) = sources d"
  "crawl_stats (snd (create_document d document now)) = crawl_stats d"
  "length (documents (snd (create_document d document now))) \<le> Suc (length (documents d))"
  "length (documents d) \<le> length (documents (snd (create_document d document now)))"
  by (simp_all add: create_document_def)

lemma store_document_frame:
  assumes "store_document src now d result = Inr d'"
  shows "sources d' = sources d" "crawl_stats d' = crawl_stats d"
    "length (documents d') \<le> Suc (length (documents d))"
    "length (documents d) \<le> length (documents d')"
  using assms create_document_frame [of d _ now]
  by (auto simp add: store_document_def split: sum.splits)

subsection \<open>The crawl loop\<close>

lemma hasattr_next_page: "hasattr r ''next_page'' = False"
  by (simp add: hasattr_def ParserResult_attributes_def)

lemma hasattr_items: "hasattr r ''items'' = False"
  by (simp add: hasattr_def ParserResult_attributes_def)

lemma visit_queue:
  "visit env src now u s = Continue s' \<Longrightarrow> urls_to_crawl s' = urls_to_crawl s"
  by (auto simp: visit_def Let_def hasattr_next_page split: sum.splits if_splits option.splits)

lemma visit_queue_le:
  "visit env src now u s = Continue s' \<or> visit env src now u s = Break s'
     \<Longrightarrow> length (urls_to_crawl s') \<le> length (urls_to_crawl s)"
  by (auto simp: visit_def Let_def hasattr_next_page split: sum.splits if_splits option.splits)

lemma visit_results:
  "visit env src now u s = Continue s' \<or> visit env src now u s = Break s'
     \<Longrightarrow> length (results s') \<le> Suc (length (results s))"
  by (auto simp: visit_def Let_def split: sum.splits if_splits option.splits)

lemma visit_frame:
  assumes "visit env src now u s = Continue s' \<or> visit env src now u s = Break s'"
  shows "documents (store s') = documents (store s)
       \<and> crawl_stats (store s') = crawl_stats (store s)
       \<and> pages_crawled (stats s') = pages_crawled (stats s)
       \<and> (sources (store s') k = None) = (sources (store s) k = None)
       \<and> fetches s' = Suc (fetches s)"
  using assms
  by (auto simp: visit_def Let_def failed_page_def update_source_frame update_source_present
           split: sum.splits if_splits option.splits)

lemma crawl_loop_done:
  "urls_to_crawl s = [] \<or> \<not> int (length (results s)) < max_hits (config (snd src))
     \<Longrightarrow> crawl_loop env src now s = s"
  by (subst crawl_loop.simps) auto

lemma crawl_loop_seen:
  "urls_to_crawl s \<noteq> [] \<Longrightarrow> int (length (results s)) < max_hits (config (snd src))
     \<Longrightarrow> hd (urls_to_crawl s) \<in> crawled_urls s
     \<Longrightarrow> crawl_loop env src now s
           = crawl_loop env src now (s\<lparr>urls_to_crawl := tl (urls_to_crawl s)\<rparr>)"
  by (subst crawl_loop.simps) (simp add: Let_def)

lemma crawl_loop_visit:
  "urls_to_crawl s \<noteq> [] \<Longrightarrow> int (length (results s)) < max_hits (config (snd src))
     \<Longrightarrow> hd (urls_to_crawl s) \<notin> crawled_urls s
     \<Longrightarrow> crawl_loop env src now s
           = (case visit env src now (hd (urls_to_crawl s))
                     (s\<lparr>urls_to_crawl := tl (urls_to_crawl s)\<rparr>) of
                Break s2 \<Rightarrow> s2
              | Continue s2 \<Rightarrow> crawl_loop env src now s2)"
  by (subst crawl_loop.simps) (simp add: Let_def)

text \<open>
  Whatever holds before the loop and is kept by a round (a skipped URL, or a visited
  one, whether the round continues or breaks) holds when the loop ends.
\<close>

lemma crawl_loop_rule:
  assumes init: "P s"
    and skip: "\<And>s. P s \<Longrightarrow> urls_to_crawl s \<noteq> []
                 \<Longrightarrow> int (length (results s)) < max_hits (config (snd src))
                 \<Longrightarrow> hd (urls_to_crawl s) \<in> crawled_urls s
                 \<Longrightarrow> P (s\<lparr>urls_to_crawl := tl (urls_to_crawl s)\<rparr>)"
    and round: "\<And>s s2. P s \<Longrightarrow> urls_to_crawl s \<noteq> []
                 \<Longrightarrow> int (length (results s)) < max_hits (config (snd src))
                 \<Longrightarrow> hd (urls_to_crawl s) \<notin> crawled_urls s
                 \<Longrightarrow> visit env src now (hd (urls_to_crawl s))
                        (s\<lparr>urls_to_crawl := tl (urls_to_crawl s)\<rparr>) = Continue s2
                     \<or> visit env src now (hd (urls_to_crawl s))
                        (s\<lparr>urls_to_crawl := tl (urls_to_crawl s)\<rparr>) = Break s2
                 \<Longrightarrow> P s2"
  shows "P (crawl_loop env src now s)"
  using assms
proof (induction env src now s rule: crawl_loop.induct)
  case (1 env src now s)
  show ?case
  proof (cases "urls_to_crawl s \<noteq> [] \<and> int (length (results s)) < max_hits (config (snd src))")
    case False
    then show ?thesis using "1.prems"(1) by (simp add: crawl_loop_done)
  next
    case True
    define u where "u = hd (urls_to_crawl s)"
    define s1 where "s1 = s\<lparr>urls_to_crawl := tl (urls_to_crawl s)\<rparr>"
    show ?thesis
    proof (cases "u \<in> crawled_urls s1")
      case seen: True
      have e: "crawl_loop env src now s = crawl_loop env src now s1"
        using True seen by (simp add: crawl_loop_seen u_def s1_def)
      have hs: "hd (urls_to_crawl s) \<in> crawled_urls s"
        using seen by (simp add: u_def s1_def)
      have p1: "P s1" unfolding s1_def
        using "1.prems"(1) True hs by (intro "1.prems"(2)[of s]) simp_all
      show ?thesis unfolding e
        by (rule "1.IH"(1) [OF True u_def s1_def seen p1 "1.prems"(2,3)])
    next
      case unseen: False
      have un: "hd (urls_to_crawl s) \<notin> crawled_urls s"
        using unseen by (simp add: u_def s1_def)
      show ?thesis
      proof (cases "visit env src now u s1")
        case (Break s2)
        have e: "crawl_loop env src now s = s2"
          using True unseen Break by (simp add: crawl_loop_visit u_def s1_def)
        show ?thesis unfolding e
          using "1.prems"(3) [OF "1.prems"(1) _ _ un, of s2] True Break
          by (simp add: u_def s1_def)
      next
        case (Continue s2)
        have e: "crawl_loop env src now s = crawl_loop env src now s2"
          using True unseen Continue by (simp add: crawl_loop_visit u_def s1_def)
        have p2: "P s2"
          using "1.prems"(3) [OF "1.prems"(1) _ _ un, of s2] True Continue
          by (simp add: u_def s1_def)
        show ?thesis unfolding e
          by (rule "1.IH"(2) [OF True u_def s1_def unseen Continue p2 "1.prems"(2,3)])
      qed
    qed
  qed
qed


lemma crawl_loop_frame:
  "documents (store (crawl_loop env src now s)) = documents (store s)
   \<and> crawl_stats (store (crawl_loop env src now s)) = crawl_stats (store s)
   \<and> pages_crawled (stats (crawl_loop env src now s)) = pages_crawled (stats s)
   \<and> (sources (store (crawl_loop env src now s)) k = None) = (sources (store s) k = None)"
proof (rule crawl_loop_rule [where P = "\<lambda>t. documents (store t) = documents (store s)
   \<and> crawl_stats (store t) = crawl_stats (store s)
   \<and> pages_crawled (stats t) = pages_crawled (stats s)
   \<and> (sources (store t) k = None) = (sources (store s) k = None)"])
  fix t s2
  assume "documents (store t) = documents (store s)
   \<and> crawl_stats (store t) = crawl_stats (store s)
   \<and> pages_crawled (stats t) = pages_crawled (stats s)
   \<and> (sources (store t) k = None) = (sources (store s) k = None)"
    and "visit env src now (hd (urls_to_crawl t)) (t\<lparr>urls_to_crawl := tl (urls_to_crawl t)\<rparr>)
           = Continue s2
         \<or> visit env src now (hd (urls_to_crawl t)) (t\<lparr>urls_to_crawl := tl (urls_to_crawl t)\<rparr>)
           = Break s2"
  then show "documents (store s2) = documents (store s)
   \<and> crawl_stats (store s2) = crawl_stats (store s)
   \<and> pages_crawled (stats s2) = pages_crawled (stats s)
   \<and> (sources (store s2) k = None) = (sources (store s) k = None)"
    using visit_frame [of env src now "hd (urls_to_crawl t)"
        "t\<lparr>urls_to_crawl := tl (urls_to_crawl t)\<rparr>" s2 k]
    by simp
qed simp_all

lemma crawl_loop_results:
  "int (length (results (crawl_loop env src now s)))
     \<le> max (int (length (results s))) (max_hits (config (snd src)))"
proof (rule crawl_loop_rule [where P = "\<lambda>t. int (length (results t))
     \<le> max (int (length (results s))) (max_hits (config (snd src)))"])
  fix t s2
  assume lt: "int (length (results t)) < max_hits (config (snd src))"
    and v: "visit env src now (hd (urls_to_crawl t)) (t\<lparr>urls_to_crawl := tl (urls_to_crawl t)\<rparr>)
           = Continue s2
         \<or> visit env src now (hd (urls_to_crawl t)) (t\<lparr>urls_to_crawl := tl (urls_to_crawl t)\<rparr>)
           = Break s2"
  have "length (results s2) \<le> Suc (length (results t))"
    using visit_results [OF v] by simp
  with lt have "int (length (results s2)) \<le> max_hits (config (snd src))" by linarith
  then show "int (length (results s2)) \<le> max (int (length (results s))) (max_hits (config (snd src)))"
    by linarith
next
  show "int (length (results s)) \<le> max (int (length (results s))) (max_hits (config (snd src)))"
    by linarith
next
  fix t
  assume "int (length (results t)) \<le> max (int (length (results s))) (max_hits (config (snd src)))"
  then show "int (length (results (t\<lparr>urls_to_crawl := tl (urls_to_crawl t)\<rparr>)))
               \<le> max (int (length (results s))) (max_hits (config (snd src)))"
    by simp
qed

lemma visit_fetches:
  "visit env src now u s = Continue s' \<or> visit env src now u s = Break s'
     \<Longrightarrow> fetches s' = Suc (fetches s)"
  using visit_frame [of env src now u s s'] by simp

lemma crawl_loop_fetches:
  "fetches (crawl_loop env src now s) \<le> fetches s + length (urls_to_crawl s)"
proof -
  have "fetches (crawl_loop env src now s) + length (urls_to_crawl (crawl_loop env src now s))
          \<le> fetches s + length (urls_to_crawl s)"
  proof (rule crawl_loop_rule [where P = "\<lambda>t. fetches t + length (urls_to_crawl t)
          \<le> fetches s + length (urls_to_crawl s)"])
    fix t s2
    assume a: "fetches t + length (urls_to_crawl t) \<le> fetches s + length (urls_to_crawl s)"
      and ne: "urls_to_crawl t \<noteq> []"
      and v: "visit env src now (hd (urls_to_crawl t)) (t\<lparr>urls_to_crawl := tl (urls_to_crawl t)\<rparr>)
             = Continue s2
           \<or> visit env src now (hd (urls_to_crawl t)) (t\<lparr>urls_to_crawl := tl (urls_to_crawl t)\<rparr>)
             = Break s2"
    have f: "fetches s2 = Suc (fetches t)" using visit_fetches [OF v] by simp
    have q: "length (urls_to_crawl s2) \<le> length (tl (urls_to_crawl t))"
      using visit_queue_le [OF v] by simp
    have "Suc (length (tl (urls_to_crawl t))) = length (urls_to_crawl t)"
      using ne by (cases "urls_to_crawl t") simp_all
    with a f q show "fetches s2 + length (urls_to_crawl s2) \<le> fetches s + length (urls_to_crawl s)"
      by linarith
  next
    fix t
    assume a: "fetches t + length (urls_to_crawl t) \<le> fetches s + length (urls_to_crawl s)"
      and ne: "urls_to_crawl t \<noteq> []"
    have "length (tl (urls_to_crawl t)) \<le> length (urls_to_crawl t)" by simp
    with a show "fetches (t\<lparr>urls_to_crawl := tl (urls_to_crawl t)\<rparr>)
                 + length (urls_to_crawl (t\<lparr>urls_to_crawl := tl (urls_to_crawl t)\<rparr>))
               \<le> fetches s + length (urls_to_crawl s)"
      by simp
  qed simp
  then show ?thesis by linarith
qed

lemma py_slice_length: "0 \<le> m \<Longrightarrow> int (length (py_slice xs 0 m)) \<le> m"
  by (simp add: py_slice_def clip_index_def)

lemma crawl_social_media_length:
  assumes "0 \<le> max_hits (config (snd src))"
  shows "int (length (fst (crawl_social_media env src st))) \<le> max_hits (config (snd src))"
  by (simp add: crawl_social_media_def Let_def hasattr_items py_slice_length [OF assms] assms
           split: option.splits sum.splits)

lemma crawl_social_media_pages_crawled:
  "pages_crawled (snd (crawl_social_media env src st)) = pages_crawled st"
  by (simp add: crawl_social_media_def Let_def hasattr_items social_error_def
           split: option.splits sum.splits)

lemma store_loop_inv:
  assumes "store_loop env src now res (k, st, d) = (k', st', d')"
  shows "k' - k = pages_crawled st' - pages_crawled st
         \<and> k \<le> k'
         \<and> (pages_crawled st \<le> max_hits (config (snd src))
               \<longrightarrow> pages_crawled st' \<le> max_hits (config (snd src)))
         \<and> int (length (documents d')) \<le> int (length (documents d)) + (k' - k)
         \<and> length (documents d) \<le> length (documents d')
         \<and> sources d' = sources d \<and> crawl_stats d' = crawl_stats d"
  using assms
proof (induction res arbitrary: k st d)
  case Nil
  then show ?case by simp
next
  case (Cons result rest)
  show ?case
  proof (cases "pages_crawled st \<ge> max_hits (config (snd src))")
    case True
    then show ?thesis using Cons.prems by simp
  next
    case False
    show ?thesis
    proof (cases "store_document src now d result")
      case (Inl e)
      then have "store_loop env src now rest
                 (k, st\<lparr>pages_failed := pages_failed st + 1,
                     errors := errors st @ [str_of env e]\<rparr>, d) = (k', st', d')"
        using Cons.prems False by simp
      from Cons.IH [OF this] show ?thesis by simp
    next
      case (Inr d1)
      then have "store_loop env src now rest
                 (k + 1, st\<lparr>pages_crawled := pages_crawled st + 1\<rparr>, d1) = (k', st', d')"
        using Cons.prems False by simp
      from Cons.IH [OF this] store_document_frame [OF Inr] False
      show ?thesis by auto
    qed
  qed
qed

lemma get_source_Some:
  "get_source d sid = Inr (Some src)
     \<Longrightarrow> ObjectId sid = Some (fst src) \<and> sources d (fst src) = Some (snd src)
         \<and> valid_source (snd src)"
  by (auto simp: get_source_def split: option.splits if_splits)

lemma valid_source_bounds:
  "valid_source s \<Longrightarrow> 1 \<le> max_hits (config s) \<and> 1 \<le> rate_limit_per_minute (config s)
                       \<and> 0 \<le> total_documents s"
  by (simp add: valid_source_def valid_config_def)

lemma save_crawl_stats_frame:
  "sources (save_crawl_stats d st) = sources d"
  "documents (save_crawl_stats d st) = documents d"
  by (simp_all add: save_crawl_stats_def)

text \<open>The run of \<open>crawl_source\<close> on a source that \<open>get_source\<close> returned.\<close>

lemma crawl_source_run:
  assumes g: "get_source d sid = Inr (Some src)"
  obtains res st1 d2 k st2 d3 where
    "store_loop env src now res (0, st1, d2) = (k, st2, d3)"
    and "pages_crawled st1 = 0"
    and "documents d2 = documents d"
    and "sources d2 (fst src) \<noteq> None"
    and "crawl_source env d sid now
           = (Inr (st2\<lparr>completed_at := Some now, duration_seconds := 0\<rparr>),
              save_crawl_stats
                (snd (update_source d3 sid
                   [Set_status COMPLETED,
                    Set_total_documents (total_documents (snd src) + k),
                    Set_last_error None] now))
                (st2\<lparr>completed_at := Some now, duration_seconds := 0\<rparr>))"
proof -
  define st0 where "st0 = \<lparr>stats_source_id = sid, pages_crawled = 0, pages_failed = 0,
                      bytes_downloaded = 0, duration_seconds = 0, started_at = now,
                      completed_at = None, errors = []\<rparr>"
  define d1 where "d1 = snd (update_source d sid [Set_status RUNNING, Set_last_crawl now] now)"
  define tr where "tr = (if is_social (content_type (snd src))
                        then (let (r, st) = crawl_social_media env src st0 in (r, st, d1))
                        else (let s = crawl_traditional env src now st0 d1
                              in (results s, stats s, store s)))"
  obtain res st1 d2 where tr: "tr = (res, st1, d2)" by (cases tr) auto
  obtain k st2 d3 where sl: "store_loop env src now res (0, st1, d2) = (k, st2, d3)"
    by (cases "store_loop env src now res (0, st1, d2)") auto
  have src: "sources d (fst src) = Some (snd src)" using get_source_Some [OF g] by simp
  have r: "rate_limit_per_minute (config (snd src)) \<noteq> 0"
    using get_source_Some [OF g] valid_source_bounds [of "snd src"] by simp
  have d1s: "sources d1 (fst src) \<noteq> None" and d1d: "documents d1 = documents d"
    using src update_source_present [of d sid _ now "fst src"]
    by (simp_all add: d1_def update_source_frame)
  have p: "pages_crawled st1 = 0 \<and> documents d2 = documents d \<and> sources d2 (fst src) \<noteq> None"
  proof (cases "is_social (content_type (snd src))")
    case True
    then have "st1 = snd (crawl_social_media env src st0)" and "d2 = d1"
      using tr by (auto simp: tr_def split: prod.splits)
    then show ?thesis using d1s d1d
      by (simp add: crawl_social_media_pages_crawled st0_def)
  next
    case False
    then have "st1 = stats (crawl_traditional env src now st0 d1)"
      and "d2 = store (crawl_traditional env src now st0 d1)"
      using tr by (auto simp: tr_def Let_def)
    then show ?thesis using d1s d1d
        crawl_loop_frame [of env src now
          "\<lparr>results = [], urls_to_crawl = [url (snd src)], crawled_urls = {},
            stats = st0, store = d1, fetches = 0\<rparr>" "fst src"]
      by (simp add: crawl_traditional_def st0_def)
  qed
  have cs: "crawl_source env d sid now
           = (Inr (st2\<lparr>completed_at := Some now, duration_seconds := 0\<rparr>),
              save_crawl_stats
                (snd (update_source d3 sid
                   [Set_status COMPLETED,
                    Set_total_documents (total_documents (snd src) + k),
                    Set_last_error None] now))
                (st2\<lparr>completed_at := Some now, duration_seconds := 0\<rparr>))"
    unfolding crawl_source_def
    using g r sl tr
    by (simp add: Let_def st0_def [symmetric] d1_def [symmetric] tr_def [symmetric])
  show ?thesis using that [OF sl] p cs by blast
qed

text \<open>Where every such run leaves the source.\<close>

lemma crawl_source_outcome:
  assumes g: "get_source d sid = Inr (Some src)"
  obtains st s' k where
    "fst (crawl_source env d sid now) = Inr st"
    and "sources (snd (crawl_source env d sid now)) (fst src) = Some s'"
    and "status s' = COMPLETED" and "last_error s' = None"
    and "total_documents s' = total_documents (snd src) + k"
    and "k = pages_crawled st" and "0 \<le> k"
    and "k \<le> max_hits (config (snd src))"
    and "int (length (documents (snd (crawl_source env d sid now))))
           \<le> int (length (documents d)) + k"
    and "length (documents d) \<le> length (documents (snd (crawl_source env d sid now)))"
proof -
  obtain res st1 d2 k st2 d3 where
    sl: "store_loop env src now res (0, st1, d2) = (k, st2, d3)"
    and p0: "pages_crawled st1 = 0"
    and dd: "documents d2 = documents d"
    and ss: "sources d2 (fst src) \<noteq> None"
    and cs: "crawl_source env d sid now
           = (Inr (st2\<lparr>completed_at := Some now, duration_seconds := 0\<rparr>),
              save_crawl_stats
                (snd (update_source d3 sid
                   [Set_status COMPLETED,
                    Set_total_documents (total_documents (snd src) + k),
                    Set_last_error None] now))
                (st2\<lparr>completed_at := Some now, duration_seconds := 0\<rparr>))"
    by (rule crawl_source_run [OF g, of env now])
  note inv = store_loop_inv [OF sl]
  have oid: "ObjectId sid = Some (fst src)" using get_source_Some [OF g] by simp
  obtain s3 where s3: "sources d3 (fst src) = Some s3" using ss inv by auto
  define s' where "s' = fold apply_update
      ([Set_status COMPLETED, Set_total_documents (total_documents (snd src) + k),
        Set_last_error None] @ [Set_updated_at now]) s3"
  have a: "sources (snd (crawl_source env d sid now)) (fst src) = Some s'"
    by (simp add: cs save_crawl_stats_frame update_source_hit [OF oid s3] s'_def)
  have b: "status s' = COMPLETED" "last_error s' = None"
    "total_documents s' = total_documents (snd src) + k"
    by (simp_all add: s'_def)
  have c: "k = pages_crawled (st2\<lparr>completed_at := Some now, duration_seconds := 0\<rparr>)"
    using inv p0 by simp
  have e: "0 \<le> k" using inv by simp
  have f: "k \<le> max_hits (config (snd src))"
    using inv p0 get_source_Some [OF g] valid_source_bounds [of "snd src"] by auto
  have h: "int (length (documents (snd (crawl_source env d sid now))))
           \<le> int (length (documents d)) + k"
    using inv dd by (simp add: cs save_crawl_stats_frame update_source_frame)
  have i: "length (documents d) \<le> length (documents (snd (crawl_source env d sid now)))"
    using inv dd by (simp add: cs save_crawl_stats_frame update_source_frame)
  show ?thesis
    by (rule that [OF _ a b c e f h i]) (simp add: cs)
qed

subsection \<open>Example runs\<close>

lemma example_parser_result:
  "example_parser (Content example_body) ''http://example.com/'' = Inr example_result"
  by code_simp

subsection \<open>A blocked run\<close>



subsection \<open>Duplicates in the store phase\<close>



text \<open>
  The whole run on the example store, which already holds the document of the only
  page: the store still holds one document of the source, and \<open>total_documents\<close> goes
  from 1 to 2.
\<close>

lemma duplicate_run_example:
  "map_option total_documents (sources example_db example_source_id) = Some 1
   \<and> count_documents example_db example_source_id = 1
   \<and> map_option total_documents
        (sources (snd (crawl_source example_env example_db example_source_id 5))
           example_source_id) = Some 2
   \<and> count_documents (snd (crawl_source example_env example_db example_source_id 5))
        example_source_id = 1
   \<and> documents (snd (crawl_source example_env example_db example_source_id 5))
        = documents example_db"
  by code_simp

subsection \<open>Following the next page\<close>


text \<open>
  On the example source, with \<open>follow_links\<close> set and \<open>max_hits = 10\<close>: the parser finds
  \<open>http://example.com/page2\<close>, and the crawl ends after one fetch with an empty queue.
\<close>

lemma next_page_not_followed_example:
  "follow_links (config example_source) = True
   \<and> max_hits (config example_source) = 10
   \<and> example_parser (Content example_body) ''http://example.com/'' = Inr example_result
   \<and> custom_metadata example_result = [(''next_page'', ''http://example.com/page2'')]
   \<and> results (crawl_traditional example_env (example_source_id, example_source) 5
                 fresh_stats example_db) = [example_result]
   \<and> urls_to_crawl (crawl_traditional example_env (example_source_id, example_source) 5
                 fresh_stats example_db) = []
   \<and> fetches (crawl_traditional example_env (example_source_id, example_source) 5
                 fresh_stats example_db) = 1"
  by code_simp

subsection \<open>The bound \<open>max_hits\<close>\<close>

lemma create_document_take:
  "take (length (documents d)) (documents (snd (create_document d document now))) = documents d"
  by (simp add: create_document_def)

lemma store_loop_stops:
  "max_hits (config (snd src)) \<le> pages_crawled st
     \<Longrightarrow> store_loop env src now res (k, st, d) = (k, st, d)"
  by (cases res) simp_all

lemma store_loop_take:
  assumes "store_loop env src now res (k, st, d) = (k', st', d')"
  shows "take (length (documents d)) (documents d') = documents d"
  using assms
proof (induction res arbitrary: k st d)
  case Nil
  then show ?case by simp
next
  case (Cons result rest)
  show ?case
  proof (cases "pages_crawled st \<ge> max_hits (config (snd src))")
    case True
    then show ?thesis using Cons.prems by simp
  next
    case False
    show ?thesis
    proof (cases "store_document src now d result")
      case (Inl e)
      then have "store_loop env src now rest
                 (k, st\<lparr>pages_failed := pages_failed st + 1,
                     errors := errors st @ [str_of env e]\<rparr>, d) = (k', st', d')"
        using Cons.prems False by simp
      from Cons.IH [OF this] show ?thesis .
    next
      case (Inr d1)
      then have sl: "store_loop env src now rest
                 (k + 1, st\<lparr>pages_crawled := pages_crawled st + 1\<rparr>, d1) = (k', st', d')"
        using Cons.prems False by simp
      have t1: "take (length (documents d)) (documents d1) = documents d"
        using Inr create_document_take [of d _ now]
        by (auto simp add: store_document_def split: sum.splits)
      have l1: "length (documents d) \<le> length (documents d1)"
        using store_document_frame(4) [OF Inr] .
      have "take (length (documents d)) (documents d')
              = take (length (documents d)) (take (length (documents d1)) (documents d'))"
        using l1 by (simp add: min_def)
      also have "\<dots> = take (length (documents d)) (documents d1)"
        using Cons.IH [OF sl] by simp
      finally show ?thesis using t1 by simp
    qed
  qed
qed

lemma crawl_source_keeps_documents:
  assumes g: "get_source d sid = Inr (Some src)"
  shows "take (length (documents d)) (documents (snd (crawl_source env d sid now))) = documents d"
proof -
  obtain res st1 d2 k st2 d3 where
    sl: "store_loop env src now res (0, st1, d2) = (k, st2, d3)"
    and dd: "documents d2 = documents d"
    and cs: "crawl_source env d sid now
           = (Inr (st2\<lparr>completed_at := Some now, duration_seconds := 0\<rparr>),
              save_crawl_stats
                (snd (update_source d3 sid
                   [Set_status COMPLETED,
                    Set_total_documents (total_documents (snd src) + k),
                    Set_last_error None] now))
                (st2\<lparr>completed_at := Some now, duration_seconds := 0\<rparr>))"
    by (rule crawl_source_run [OF g, of env now])
  show ?thesis
    using store_loop_take [OF sl] dd
    by (simp add: cs save_crawl_stats_frame update_source_frame)
qed

text \<open>
  Claim C6.  Take a run of \<open>crawl_source\<close> on a source that \<open>get_source\<close> returns (any
  other run raises before it stores anything).  The run keeps the documents that
  were in the store and appends at most \<open>max_hits\<close> new ones; it returns statistics
  whose \<open>pages_crawled\<close> is between 0 and \<open>max_hits\<close>, and adds that number to the
  source's \<open>total_documents\<close>.  The store loop stops once \<open>pages_crawled\<close> has reached
  \<open>max_hits\<close>; \<open>_crawl_traditional\<close> returns at most \<open>max_hits\<close> results, and
  \<open>_crawl_social_media\<close> returns at most \<open>max_hits\<close> results.
\<close>

theorem crawl_source_max_hits:
  assumes "get_source d sid = Inr (Some src)"
  shows "take (length (documents d)) (documents (snd (crawl_source env d sid now))) = documents d
       \<and> int (length (drop (length (documents d))
                          (documents (snd (crawl_source env d sid now)))))
             \<le> max_hits (config (snd src))
       \<and> (case fst (crawl_source env d sid now) of
             Inl e \<Rightarrow> False
           | Inr st \<Rightarrow>
               0 \<le> pages_crawled st \<and> pages_crawled st \<le> max_hits (config (snd src))
               \<and> map_option total_documents
                     (sources (snd (crawl_source env d sid now)) (fst src))
                   = Some (total_documents (snd src) + pages_crawled st))
       \<and> (max_hits (config (snd src)) \<le> pages_crawled st'
             \<longrightarrow> store_loop env src now res (k, st', d') = (k, st', d'))
       \<and> int (length (results (crawl_traditional env src now st0 d0)))
             \<le> max_hits (config (snd src))
       \<and> int (length (fst (crawl_social_media env src st0))) \<le> max_hits (config (snd src))"
proof -
  have mh: "1 \<le> max_hits (config (snd src))"
    using get_source_Some [OF assms] valid_source_bounds [of "snd src"] by simp
  obtain st s' n where
    o: "fst (crawl_source env d sid now) = Inr st"
    "sources (snd (crawl_source env d sid now)) (fst src) = Some s'"
    "total_documents s' = total_documents (snd src) + n"
    "n = pages_crawled st" "0 \<le> n"
    "n \<le> max_hits (config (snd src))"
    "int (length (documents (snd (crawl_source env d sid now))))
           \<le> int (length (documents d)) + n"
    "length (documents d) \<le> length (documents (snd (crawl_source env d sid now)))"
    by (rule crawl_source_outcome [OF assms, of env now]) blast
  have a: "take (length (documents d)) (documents (snd (crawl_source env d sid now))) = documents d"
    by (rule crawl_source_keeps_documents [OF assms])
  have b: "int (length (drop (length (documents d))
                          (documents (snd (crawl_source env d sid now)))))
             \<le> max_hits (config (snd src))"
    using o(6,7,8) by simp
  have c: "(case fst (crawl_source env d sid now) of
             Inl e \<Rightarrow> False
           | Inr st \<Rightarrow>
               0 \<le> pages_crawled st \<and> pages_crawled st \<le> max_hits (config (snd src))
               \<and> map_option total_documents
                     (sources (snd (crawl_source env d sid now)) (fst src))
                   = Some (total_documents (snd src) + pages_crawled st))"
    using o(1-6) by simp
  have e: "max_hits (config (snd src)) \<le> pages_crawled st'
             \<longrightarrow> store_loop env src now res (k, st', d') = (k, st', d')"
    by (simp add: store_loop_stops)
  have f: "int (length (results (crawl_traditional env src now st0 d0)))
             \<le> max_hits (config (snd src))"
    using crawl_loop_results [of env src now
          "\<lparr>results = [], urls_to_crawl = [url (snd src)], crawled_urls = {},
            stats = st0, store = d0, fetches = 0\<rparr>"] mh
    by (simp add: crawl_traditional_def)
  have h: "int (length (fst (crawl_social_media env src st0))) \<le> max_hits (config (snd src))"
    using crawl_social_media_length [of src env st0] mh by simp
  show ?thesis using a b c e f h by blast
qed

theorem crawl_source_max_hits_witness:
  "get_source (example_db\<lparr>documents := []\<rparr>) example_source_id
     = Inr (Some (example_source_id, example_source))
   \<and> max_hits (config example_source) = 10
   \<and> int (length (documents
          (snd (crawl_source example_env (example_db\<lparr>documents := []\<rparr>) example_source_id 5))))
        \<le> 10
   \<and> store_loop example_env (example_source_id, example_source) 5 [example_result]
         (0, fresh_stats\<lparr>pages_crawled := 10\<rparr>, example_db)
       = (0, fresh_stats\<lparr>pages_crawled := 10\<rparr>, example_db)
   \<and> int (length (results (crawl_traditional example_env (example_source_id, example_source)
                                5 fresh_stats example_db))) \<le> 10"
proof -
  have h: "get_source (example_db\<lparr>documents := []\<rparr>) example_source_id
             = Inr (Some (example_source_id, example_source))"
    by code_simp
  have m: "max_hits (config example_source) = 10"
    by (simp add: example_source_def example_config_def)
  have p: "pages_crawled (fresh_stats\<lparr>pages_crawled := 10\<rparr>) = 10" by simp
  from crawl_source_max_hits [OF h, where env = example_env and now = 5
         and st' = "fresh_stats\<lparr>pages_crawled := 10\<rparr>" and res = "[example_result]"
         and k = 0 and d' = example_db and ?st0.0 = fresh_stats and ?d0.0 = example_db]
  show ?thesis using h m p by simp
qed

text \<open>
  A run on any other id raises before the \<open>try\<close> and leaves the store as it was.
\<close>

lemma crawl_source_raises:
  "get_source d sid = Inl e \<Longrightarrow> crawl_source env d sid now = (Inl e, d)"
  "get_source d sid = Inr None
     \<Longrightarrow> crawl_source env d sid now = (Inl (ValueError (''Source not found: '' @ sid)), d)"
  by (simp_all add: crawl_source_def)

text \<open>The same run stores the one page and counts it.\<close>

lemma crawl_source_stores_example:
  "map_option (\<lambda>st. (pages_crawled st, pages_failed st))
      (case fst (crawl_source example_env (example_db\<lparr>documents := []\<rparr>) example_source_id 5)
       of Inl e \<Rightarrow> None | Inr st \<Rightarrow> Some st) = Some (1, 0)
   \<and> map (\<lambda>(i, doc). (doc_url doc, source_id doc))
        (documents (snd (crawl_source example_env (example_db\<lparr>documents := []\<rparr>)
                           example_source_id 5)))
       = [(''http://example.com/'', example_source_id)]"
  by code_simp


section \<open>Properties of the scheduler\<close>

text \<open>
  A job that finds its source marked returns without crawling; a manual trigger on a
  marked source is rejected; and a job that finds its source unmarked leaves the mark
  cleared, whether \<open>crawl_source\<close> returned or raised.
\<close>

lemma crawl_job_skips_active:
  "is_active (fst sys) sid \<Longrightarrow> crawl_job env sys sid now = sys"
  by (simp add: crawl_job_def job_begin_def)

lemma trigger_rejects_active:
  "is_active sch sid \<Longrightarrow> trigger_source_crawl sch sid now = (False, sch)"
  by (simp add: trigger_source_crawl_def)

lemma crawl_job_clears_mark:
  "\<not> is_active (fst sys) sid
     \<Longrightarrow> active_crawls (fst (crawl_job env sys sid now)) sid = Some False
         \<and> \<not> is_active (fst (crawl_job env sys sid now)) sid
         \<and> snd (crawl_job env sys sid now) = snd (crawl_source env (snd sys) sid now)"
  by (simp add: crawl_job_def job_begin_def execute_crawl_def job_end_def job_mark_def
        is_active_def split: prod.splits)

lemma worker_alone_is_crawl_job:
  "run_schedule env now [0, 0, 0] (sch, d, [(sid, AtCheck)])
     = (fst (crawl_job env (sch, d) sid now), snd (crawl_job env (sch, d) sid now),
        [(sid, if is_active sch sid then Skipped else Done)])"
  by (simp add: run_schedule_def worker_step_def crawl_job_def job_begin_def Let_def
        split: prod.splits)

text \<open>
  Claim C8 says that at most one crawl run of a source is active at any instant.  The
  three mechanisms it names are as it says (the lemmas above), and they do not give
  that: the test of the mark and the assignment to it are two statements with no
  lock around them.  Two manual triggers of the example source, one after the
  other, are both accepted, since the mark is set only when a job starts.  Their
  jobs run on two workers; when each worker makes its test before the other makes
  its assignment (the schedule \<open>[0, 1, 0, 1]\<close>), both pass the test, and both are
  crawling the source at the same time.
\<close>

theorem overlapping_crawls_schedule:
  "trigger_source_crawl new_scheduler example_source_id 1
     = (True, new_scheduler\<lparr>jobs := [ManualJob example_source_id 1]\<rparr>)
   \<and> trigger_source_crawl (new_scheduler\<lparr>jobs := [ManualJob example_source_id 1]\<rparr>)
         example_source_id 2
     = (True, new_scheduler\<lparr>jobs := [ManualJob example_source_id 1,
                                          ManualJob example_source_id 2]\<rparr>)
   \<and> snd (snd (run_schedule example_env 5 [0, 1, 0, 1]
         (new_scheduler\<lparr>jobs := [ManualJob example_source_id 1,
                                   ManualJob example_source_id 2]\<rparr>, example_db,
          [(example_source_id, AtCheck), (example_source_id, AtCheck)])))
     = [(example_source_id, Crawling), (example_source_id, Crawling)]
   \<and> active_runs (snd (snd (run_schedule example_env 5 [0, 1, 0, 1]
         (new_scheduler\<lparr>jobs := [ManualJob example_source_id 1,
                                   ManualJob example_source_id 2]\<rparr>, example_db,
          [(example_source_id, AtCheck), (example_source_id, AtCheck)])))) example_source_id = 2"
proof -
  have a: "trigger_source_crawl new_scheduler example_source_id 1
     = (True, new_scheduler\<lparr>jobs := [ManualJob example_source_id 1]\<rparr>)"
    by (simp add: trigger_source_crawl_def is_active_def new_scheduler_def)
  have b: "trigger_source_crawl (new_scheduler\<lparr>jobs := [ManualJob example_source_id 1]\<rparr>)
         example_source_id 2
     = (True, new_scheduler\<lparr>jobs := [ManualJob example_source_id 1,
                                          ManualJob example_source_id 2]\<rparr>)"
    by (simp add: trigger_source_crawl_def is_active_def new_scheduler_def)
  have c: "snd (snd (run_schedule example_env 5 [0, 1, 0, 1]
         (new_scheduler\<lparr>jobs := [ManualJob example_source_id 1,
                                   ManualJob example_source_id 2]\<rparr>, example_db,
          [(example_source_id, AtCheck), (example_source_id, AtCheck)])))
     = [(example_source_id, Crawling), (example_source_id, Crawling)]"
    by code_simp
  have d: "active_runs (snd (snd (run_schedule example_env 5 [0, 1, 0, 1]
         (new_scheduler\<lparr>jobs := [ManualJob example_source_id 1,
                                   ManualJob example_source_id 2]\<rparr>, example_db,
          [(example_source_id, AtCheck), (example_source_id, AtCheck)])))) example_source_id = 2"
    by code_simp
  show ?thesis by (intro conjI a b c d)
qed

text \<open>
  When both crawls have run to their end, the store holds a statistics record of
  each beside the one it had.
\<close>

lemma overlapping_crawls_complete:
  "snd (snd (run_schedule example_env 5 [0, 1, 0, 1, 0, 1]
         (new_scheduler, example_db,
          [(example_source_id, AtCheck), (example_source_id, AtCheck)])))
     = [(example_source_id, Done), (example_source_id, Done)]
   \<and> length (crawl_stats (fst (snd (run_schedule example_env 5 [0, 1, 0, 1, 0, 1]
         (new_scheduler, example_db,
          [(example_source_id, AtCheck), (example_source_id, AtCheck)]))))) = 3
   \<and> length (crawl_stats example_db) = 1"
  by code_simp



end
